theory Spec2Isabelle
  imports Complex_Main "HOL-Library.Sublist"
begin

text \<open>
  A model of the relay bot of \<open>main.py\<close> and \<open>models.py\<close>: the tables of the store
  and the functions that read and write them, the helpers that send and edit messages, the
  handlers of the updates as functions from a state to a new state and a list of messages,
  and the properties of these functions.
\<close>

section \<open>Strings\<close>

text \<open>
  A Python \<open>str\<close> is a sequence of Unicode code points, so it is modelled as a list of
  code points: length, slicing and equality then count what Python counts. The literals of
  the source are written with \<open>str\<close> where they are ASCII, and with their code points
  where they hold an emoji.
\<close>

type_synonym pystr = "nat list"

definition str :: "string \<Rightarrow> pystr" where
  "str s = map of_char s"

text \<open>
  \<open>str.lower()\<close> and \<open>str.upper()\<close>, exact on ASCII. Code points outside ASCII are left as
  they are (the Unicode case tables are not part of the repository).
\<close>

definition lower_cp :: "nat \<Rightarrow> nat" where
  "lower_cp c = (if 65 \<le> c \<and> c \<le> 90 then c + 32 else c)"

definition upper_cp :: "nat \<Rightarrow> nat" where
  "upper_cp c = (if 97 \<le> c \<and> c \<le> 122 then c - 32 else c)"

definition py_lower :: "pystr \<Rightarrow> pystr" where
  "py_lower s = map lower_cp s"

definition py_upper :: "pystr \<Rightarrow> pystr" where
  "py_upper s = map upper_cp s"

text \<open>\<open>a in b\<close> on strings: \<open>a\<close> occurs in \<open>b\<close> as a contiguous run.\<close>

fun starts_with :: "pystr \<Rightarrow> pystr \<Rightarrow> bool" where
  "starts_with s [] = True"
| "starts_with [] (p # ps) = False"
| "starts_with (c # cs) (p # ps) = (c = p \<and> starts_with cs ps)"

fun py_in :: "pystr \<Rightarrow> pystr \<Rightarrow> bool" where
  "py_in a [] = (a = [])"
| "py_in a (c # cs) = (starts_with (c # cs) a \<or> py_in a cs)"

section \<open>Outbound transport: send and edit with retry\<close>

text \<open>
  What one call of \<open>bot.send_message\<close> or \<open>bot.edit_message_text\<close> does: it returns a
  value, or raises \<open>RetryAfter\<close> with the delay the transport asks for, or raises another
  \<open>TelegramError\<close> with its message, or raises some other \<open>Exception\<close>. Here \<open>api\<close> is a
  function from the number of the call (0, 1, 2) to what that call does.
\<close>

datatype 'm call_outcome =
    Returns 'm
  | RaisesRetryAfter real
  | RaisesTelegramError pystr
  | RaisesException pystr

text \<open>What the helper does besides returning: calls, log entries and sleeps, in order.\<close>

datatype effect =
    ApiCall nat
  | LogWarning nat real
  | LogError pystr
  | Sleep real

definition max_retries :: nat where
  "max_retries = 3"

text \<open>
  The loop \<open>for attempt in range(max_retries)\<close> of \<open>safe_send_message\<close>, from attempt
  \<open>a\<close> with \<open>n\<close> attempts left. A returned message ends the function; \<open>RetryAfter\<close> logs a
  warning, sleeps for the given delay and goes on; any other exception logs an error and
  breaks. After the loop the function returns \<open>None\<close>.
\<close>

fun send_loop :: "(nat \<Rightarrow> 'm call_outcome) \<Rightarrow> nat \<Rightarrow> nat \<Rightarrow> 'm option \<times> effect list" where
  "send_loop api 0 a = (None, [])"
| "send_loop api (Suc n) a =
     (case api a of
        Returns m \<Rightarrow> (Some m, [ApiCall a])
      | RaisesRetryAfter d \<Rightarrow>
          (let (r, es) = send_loop api n (Suc a)
           in (r, [ApiCall a, LogWarning (a + 1) d, Sleep d] @ es))
      | RaisesTelegramError e \<Rightarrow> (None, [ApiCall a, LogError e])
      | RaisesException e \<Rightarrow> (None, [ApiCall a, LogError e]))"

definition safe_send_message :: "(nat \<Rightarrow> 'm call_outcome) \<Rightarrow> 'm option \<times> effect list" where
  "safe_send_message api = send_loop api max_retries 0"

text \<open>
  \<open>safe_edit_message\<close> returns the edited message, or \<open>True\<close> when the transport says
  that the message is not modified, or \<open>None\<close>.
\<close>

datatype 'm edit_value = Edited 'm | PyTrue

fun edit_loop :: "(nat \<Rightarrow> 'm call_outcome) \<Rightarrow> nat \<Rightarrow> nat \<Rightarrow> 'm edit_value option \<times> effect list" where
  "edit_loop api 0 a = (None, [])"
| "edit_loop api (Suc n) a =
     (case api a of
        Returns m \<Rightarrow> (Some (Edited m), [ApiCall a])
      | RaisesRetryAfter d \<Rightarrow>
          (let (r, es) = edit_loop api n (Suc a)
           in (r, [ApiCall a, LogWarning (a + 1) d, Sleep d] @ es))
      | RaisesTelegramError e \<Rightarrow>
          (if py_in (str ''message is not modified'') (py_lower e)
           then (Some PyTrue, [ApiCall a])
           else (None, [ApiCall a, LogError e]))
      | RaisesException e \<Rightarrow> (None, [ApiCall a, LogError e]))"

definition safe_edit_message :: "(nat \<Rightarrow> 'm call_outcome) \<Rightarrow> 'm edit_value option \<times> effect list" where
  "safe_edit_message api = edit_loop api max_retries 0"

fun is_call :: "effect \<Rightarrow> bool" where
  "is_call (ApiCall a) = True"
| "is_call e = False"

definition attempts :: "effect list \<Rightarrow> nat" where
  "attempts es = length (filter is_call es)"

text \<open>
  The effects of \<open>k\<close> rate-limited calls in a row, call \<open>a\<close> being answered with the
  delay \<open>d a\<close>: each call is followed by its warning and by a sleep of that delay.
\<close>

definition rate_limited :: "(nat \<Rightarrow> real) \<Rightarrow> nat \<Rightarrow> effect list" where
  "rate_limited d k = concat (map (\<lambda>a. [ApiCall a, LogWarning (a + 1) (d a), Sleep (d a)]) [0..<k])"

text \<open>
  What both helpers return and do when the first \<open>k\<close> calls are rate-limited: with
  \<open>k = 3\<close> they give up; with \<open>k < 3\<close> the answer to call \<open>k\<close> decides.
\<close>

definition retry_outcome :: "(nat \<Rightarrow> 'm call_outcome) \<Rightarrow> (nat \<Rightarrow> real) \<Rightarrow> nat \<Rightarrow> bool" where
  "retry_outcome api d k \<longleftrightarrow>
      (k = 3 \<longrightarrow> safe_send_message api = (None, rate_limited d 3)
               \<and> safe_edit_message api = (None, rate_limited d 3)) \<and>
      (k < 3 \<longrightarrow>
         (\<forall>m. api k = Returns m \<longrightarrow>
            safe_send_message api = (Some m, rate_limited d k @ [ApiCall k]) \<and>
            safe_edit_message api = (Some (Edited m), rate_limited d k @ [ApiCall k])) \<and>
         (\<forall>e. api k = RaisesException e \<longrightarrow>
            safe_send_message api = (None, rate_limited d k @ [ApiCall k, LogError e]) \<and>
            safe_edit_message api = (None, rate_limited d k @ [ApiCall k, LogError e])) \<and>
         (\<forall>e. api k = RaisesTelegramError e \<longrightarrow>
            safe_send_message api = (None, rate_limited d k @ [ApiCall k, LogError e]) \<and>
            safe_edit_message api =
              (if py_in (str ''message is not modified'') (py_lower e)
               then (Some PyTrue, rate_limited d k @ [ApiCall k])
               else (None, rate_limited d k @ [ApiCall k, LogError e]))))"

section \<open>The persistent store\<close>

text \<open>
  The four tables of \<open>models.py\<close>. A nullable column is an \<open>option\<close>. Timestamps (the
  readings of \<open>datetime.utcnow()\<close> and \<open>time.time()\<close>) are real numbers of seconds.
  The \<open>users\<close> and \<open>requests\<close> tables are lists of rows in the order of insertion; the
  \<open>bans\<close> and \<open>settings\<close> tables are only read by primary key and are maps. The key of a
  new request comes from a counter, as from a database sequence.
\<close>

record user_row =
  user_id :: int
  username :: "pystr option"
  first_name :: "pystr option"
  lang :: pystr
  updated_at :: real

record request_row =
  request_id :: int
  r_user_id :: int
  r_username :: "pystr option"
  r_text :: pystr
  status :: pystr
  created_at :: real
  thread_id :: "int option"
  part_no :: "int option"

record ban_row =
  reason :: "pystr option"
  banned_at :: real

record db =
  users :: "user_row list"
  requests :: "request_row list"
  next_request_id :: int
  bans :: "int \<rightharpoonup> ban_row"
  settings :: "pystr \<rightharpoonup> pystr option"

subsection \<open>Settings\<close>

text \<open>\<open>key.upper().replace("_", "")\<close>: the name of the environment variable read as fallback.\<close>

definition env_name :: "pystr \<Rightarrow> pystr" where
  "env_name key = filter (\<lambda>c. c \<noteq> 95) (py_upper key)"

text \<open>
  \<open>get_setting\<close>: the value of the row when there is one (it may be NULL), otherwise
  \<open>os.environ.get\<close> of the derived name.
\<close>

definition get_setting :: "db \<Rightarrow> (pystr \<rightharpoonup> pystr) \<Rightarrow> pystr \<Rightarrow> pystr option" where
  "get_setting d environ key =
     (case settings d key of
        Some v \<Rightarrow> v
      | None \<Rightarrow> environ (env_name key))"

definition set_setting :: "db \<Rightarrow> pystr \<Rightarrow> pystr \<Rightarrow> db" where
  "set_setting d key v = d\<lparr>settings := (settings d)(key \<mapsto> Some v)\<rparr>"

definition empty_db :: db where
  "empty_db = \<lparr>users = [], requests = [], next_request_id = 1, bans = Map.empty, settings = Map.empty\<rparr>"

section \<open>Configuration\<close>

definition ADMIN_ID :: int where
  "ADMIN_ID = 7370821047"

definition OWNER_USERNAME :: pystr where
  "OWNER_USERNAME = str ''@FEARFLESH''"

definition is_owner :: "int \<Rightarrow> bool" where
  "is_owner uid \<longleftrightarrow> uid = ADMIN_ID"

definition CB_CONFIRM_YES :: pystr where "CB_CONFIRM_YES = str ''C_Y''"
definition CB_CONFIRM_NO :: pystr where "CB_CONFIRM_NO = str ''C_N''"
definition CB_REPLY_PREFIX :: pystr where "CB_REPLY_PREFIX = str ''R:''"
definition CB_REJECT_PREFIX :: pystr where "CB_REJECT_PREFIX = str ''X:''"
definition CB_CLEAN_YES :: pystr where "CB_CLEAN_YES = str ''CLN_Y''"
definition CB_CLEAN_NO :: pystr where "CB_CLEAN_NO = str ''CLN_N''"
definition CB_GRP_RETRY :: pystr where "CB_GRP_RETRY = str ''AGR:''"
definition CB_STAT_PAGE :: pystr where "CB_STAT_PAGE = str ''ST_P:''"
definition CB_STAT_USER :: pystr where "CB_STAT_USER = str ''ST_U:''"
definition CB_STAT_BACK :: pystr where "CB_STAT_BACK = str ''ST_B:''"
definition CB_STAT_REFRESH :: pystr where "CB_STAT_REFRESH = str ''ST_R:''"

text \<open>Python's truth test on an optional integer and on an optional string.\<close>

definition truthy_int :: "int option \<Rightarrow> bool" where
  "truthy_int v = (case v of None \<Rightarrow> False | Some i \<Rightarrow> i \<noteq> 0)"

definition truthy_str :: "pystr option \<Rightarrow> bool" where
  "truthy_str v = (case v of None \<Rightarrow> False | Some x \<Rightarrow> x \<noteq> [])"

text \<open>How an f-string prints an integer, and an optional value (\<open>None\<close> prints as None).\<close>

fun digits :: "nat \<Rightarrow> pystr" where
  "digits n = (if n < 10 then [48 + n] else digits (n div 10) @ [48 + n mod 10])"

declare digits.simps [simp del]

definition str_int :: "int \<Rightarrow> pystr" where
  "str_int i = (if i < 0 then 45 # digits (nat (- i)) else digits (nat i))"

definition str_opt_int :: "int option \<Rightarrow> pystr" where
  "str_opt_int v = (case v of None \<Rightarrow> str ''None'' | Some i \<Rightarrow> str_int i)"

definition str_opt :: "pystr option \<Rightarrow> pystr" where
  "str_opt v = (case v of None \<Rightarrow> str ''None'' | Some x \<Rightarrow> x)"

text \<open>\<open>sep.join(xs)\<close>.\<close>

fun py_join :: "pystr \<Rightarrow> pystr list \<Rightarrow> pystr" where
  "py_join sep [] = []"
| "py_join sep [x] = x"
| "py_join sep (x # y # ys) = x @ sep @ py_join sep (y # ys)"

text \<open>\<open>html.escape\<close> with its default \<open>quote=True\<close>.\<close>

definition escape_cp :: "nat \<Rightarrow> pystr" where
  "escape_cp c =
     (if c = 38 then str ''&amp;''
      else if c = 60 then str ''&lt;''
      else if c = 62 then str ''&gt;''
      else if c = 34 then str ''&quot;''
      else if c = 39 then str ''&#x27;''
      else [c])"

definition html_escape :: "pystr \<Rightarrow> pystr" where
  "html_escape x = concat (map escape_cp x)"

subsection \<open>Users\<close>

text \<open>The sender of an update, as Telegram gives it.\<close>

record tg_user =
  tg_id :: int
  tg_username :: "pystr option"
  tg_first_name :: pystr

definition get_user :: "db \<Rightarrow> int \<Rightarrow> user_row option" where
  "get_user d uid = find (\<lambda>r. user_id r = uid) (users d)"

definition upsert_user :: "db \<Rightarrow> tg_user \<Rightarrow> pystr option \<Rightarrow> real \<Rightarrow> db" where
  "upsert_user d u lng now =
     (case get_user d (tg_id u) of
        None \<Rightarrow>
          d\<lparr>users := users d @
             [\<lparr>user_id = tg_id u, username = tg_username u, first_name = Some (tg_first_name u),
               lang = (if truthy_str lng then the lng else str ''hinglish''), updated_at = now\<rparr>]\<rparr>
      | Some _ \<Rightarrow>
          d\<lparr>users := map (\<lambda>r. if user_id r = tg_id u
                              then r\<lparr>username := tg_username u, first_name := Some (tg_first_name u),
                                     lang := (if truthy_str lng then the lng else lang r),
                                     updated_at := now\<rparr>
                              else r) (users d)\<rparr>)"

definition get_lang :: "db \<Rightarrow> int \<Rightarrow> pystr" where
  "get_lang d uid = (case get_user d uid of Some r \<Rightarrow> lang r | None \<Rightarrow> str ''hinglish'')"

subsection \<open>Requests\<close>

text \<open>
  \<open>order_by(desc(key))\<close>: the rows by decreasing key. Where the keys are equal the database
  is free to return the rows in any order; the model keeps the order of the table.
\<close>

definition order_desc :: "('a \<Rightarrow> real) \<Rightarrow> 'a list \<Rightarrow> 'a list" where
  "order_desc key rows = sort_key (\<lambda>r. - key r) rows"

text \<open>\<open>.first()\<close>: the first row of a result, or \<open>None\<close>.\<close>

definition first_row :: "'a list \<Rightarrow> 'a option" where
  "first_row rows = (case rows of [] \<Rightarrow> None | r # _ \<Rightarrow> Some r)"

text \<open>\<open>func.max\<close> over a column: NULL values are skipped, no value gives NULL.\<close>

definition sql_max :: "int option list \<Rightarrow> int option" where
  "sql_max col =
     (case List.map_filter id col of
        [] \<Rightarrow> None
      | v # vs \<Rightarrow> Some (fold max vs v))"

text \<open>\<open>v or 0\<close> on the scalar of the query.\<close>

definition or_zero :: "int option \<Rightarrow> int" where
  "or_zero v = (case v of None \<Rightarrow> 0 | Some i \<Rightarrow> if i = 0 then 0 else i)"

definition recent_pending :: "real \<Rightarrow> int \<Rightarrow> request_row \<Rightarrow> bool" where
  "recent_pending now uid r \<longleftrightarrow>
     r_user_id r = uid \<and> status r = str ''pending'' \<and> created_at r > now - 15 * 60 \<and>
     thread_id r \<noteq> None"

definition existing_request :: "db \<Rightarrow> real \<Rightarrow> int \<Rightarrow> request_row option" where
  "existing_request d now uid =
     first_row (order_desc created_at (filter (recent_pending now uid) (requests d)))"

definition max_part :: "db \<Rightarrow> int option \<Rightarrow> int" where
  "max_part d tid = or_zero (sql_max (map part_no (filter (\<lambda>r. tid \<noteq> None \<and> thread_id r = tid) (requests d))))"

text \<open>The dictionary that \<open>create_request\<close> returns.\<close>

record created =
  c_request_id :: int
  c_thread_id :: int
  c_part_no :: int

text \<open>
  \<open>create_request\<close>. Both readings of the clock in one call are the same instant \<open>now\<close>.
  The row is added with the thread it continues, or with no thread; the flush gives it its
  key; a row without thread then takes its own key as thread.
\<close>

definition create_request :: "db \<Rightarrow> real \<Rightarrow> int \<Rightarrow> pystr \<Rightarrow> pystr \<Rightarrow> db \<times> created" where
  "create_request d now uid uname txt =
     (let existing = existing_request d now uid;
          tid = (case existing of Some e \<Rightarrow> thread_id e | None \<Rightarrow> None);
          pno = (case existing of Some e \<Rightarrow> max_part d (thread_id e) + 1 | None \<Rightarrow> 1);
          rid = next_request_id d;
          tid' = (case tid of None \<Rightarrow> rid | Some x \<Rightarrow> x);
          new_req = \<lparr>request_id = rid, r_user_id = uid, r_username = Some uname, r_text = txt,
                     status = str ''pending'', created_at = now, thread_id = Some tid',
                     part_no = Some pno\<rparr>
      in (d\<lparr>requests := requests d @ [new_req], next_request_id := rid + 1\<rparr>,
          \<lparr>c_request_id = rid, c_thread_id = tid', c_part_no = pno\<rparr>))"

definition get_request :: "db \<Rightarrow> int \<Rightarrow> request_row option" where
  "get_request d rid = find (\<lambda>r. request_id r = rid) (requests d)"

text \<open>\<open>set_request_status\<close>: the row with this key, if there is one, gets the status.\<close>

definition set_request_status :: "db \<Rightarrow> int \<Rightarrow> pystr \<Rightarrow> db" where
  "set_request_status d rid st =
     d\<lparr>requests := map (\<lambda>r. if request_id r = rid then r\<lparr>status := st\<rparr> else r) (requests d)\<rparr>"

definition clean_requests :: "db \<Rightarrow> db" where
  "clean_requests d = d\<lparr>requests := []\<rparr>"

subsection \<open>Bans\<close>

definition ban_user :: "db \<Rightarrow> int \<Rightarrow> pystr \<Rightarrow> real \<Rightarrow> db" where
  "ban_user d uid rsn now = d\<lparr>bans := (bans d)(uid \<mapsto> \<lparr>reason = Some rsn, banned_at = now\<rparr>)\<rparr>"

definition unban_user :: "db \<Rightarrow> int \<Rightarrow> db" where
  "unban_user d uid = d\<lparr>bans := (bans d)(uid := None)\<rparr>"

definition get_ban :: "db \<Rightarrow> int \<Rightarrow> ban_row option" where
  "get_ban d uid = bans d uid"

section \<open>Texts\<close>

text \<open>The two tables of \<open>t\<close>; a key that is missing from the table is returned as it is.\<close>

definition EN :: "(pystr \<times> pystr) list" where
  "EN =
     [(str ''start'', str ''Bro, write everything in one message and send it '' @ [128513]),
      (str ''confirm'', str ''Are you sure you have written all the things?''),
      (str ''write_again'', str ''Okay, write again and send in one message.''),
      (str ''sent_to_admin'', str ''Done. Your message has been sent.''),
      (str ''denied'', str ''Your request has been denied.''),
      (str ''lang_choose'', str ''Choose language / language choose karo:''),
      (str ''lang_now_en'', str ''Language set to English.''),
      (str ''lang_now_hi'', str ''Language set to Hinglish.''),
      (str ''admin_new'', str ''New request received:''),
      (str ''admin_reply_prompt'', str ''Write down the reply (it will go to the same user).''),
      (str ''admin_reply_sent'', str ''Reply sent to user.''),
      (str ''admin_rejected'', str ''Rejected and user informed.''),
      (str ''cooldown'', str ''Please wait, cooldown running...''),
      (str ''banned'', str ''You are banned from using this bot.'')]"

definition HI :: "(pystr \<times> pystr) list" where
  "HI =
     [(str ''start'', str ''Bro sab ek hi bari me likh ke bhej de '' @ [128513]),
      (str ''confirm'', str ''Are you sure you have write all the things ??''),
      (str ''write_again'', str ''Theek hai, dobara likh ke ek hi message me bhej.''),
      (str ''sent_to_admin'', str ''Done, tumhara message send ho gaya.''),
      (str ''denied'', str ''Your request has been denied.''),
      (str ''lang_choose'', str ''Choose language / language choose karo:''),
      (str ''lang_now_en'', str ''Language English set ho gayi.''),
      (str ''lang_now_hi'', str ''Language Hinglish set ho gayi.''),
      (str ''admin_new'', str ''New request aayi hai:''),
      (str ''admin_reply_prompt'', str ''Reply likho (yeh same user ko jayega).''),
      (str ''admin_reply_sent'', str ''User ko reply bhej diya.''),
      (str ''admin_rejected'', str ''Reject kar diya aur user ko inform kar diya.''),
      (str ''cooldown'', str ''Bhai ruk ja, cooldown chal raha hai...''),
      (str ''banned'', str ''You are banned from using this bot.'')]"

definition t :: "db \<Rightarrow> int \<Rightarrow> pystr \<Rightarrow> pystr" where
  "t d uid key =
     (case map_of (if get_lang d uid = str ''en'' then EN else HI) key of
        Some v \<Rightarrow> v
      | None \<Rightarrow> key)"

definition menu_send :: pystr where "menu_send = [128221] @ str '' Send Message''"
definition menu_language :: pystr where "menu_language = [127760] @ str '' Language''"
definition menu_owner :: pystr where "menu_owner = [128100] @ str '' Owner''"
definition menu_help :: pystr where "menu_help = [8505, 65039] @ str '' Help''"

definition menu_labels :: "pystr list" where
  "menu_labels = [menu_send, menu_language, menu_owner, menu_help]"

definition HTML :: "pystr option" where
  "HTML = Some (str ''HTML'')"

section \<open>Session state, outputs and handlers\<close>

text \<open>
  What a handler asks the transport to do, in order: \<open>safe_send_message\<close> to a chat, the
  answer to a callback query, and the edit of the message that carries the pressed button.
  A keyboard is its rows of buttons; an inline button is its label and its callback data.
  The handlers do not look at what these calls return, and the exceptions they may raise
  are caught where the source catches them; a call that raises where the source does not
  catch it ends the handler at that point and is not part of the model.
\<close>

datatype markup =
    NoMarkup
  | ReplyKeyboard "pystr list list"
  | InlineKeyboard "(pystr \<times> pystr) list list"

datatype action =
    SendMessage int pystr markup "pystr option"
  | Answer "pystr option" bool
  | EditMessageText pystr markup "pystr option"

text \<open>
  The state of the process: the store, the two module-level dictionaries, the draft of
  each user (\<open>context.user_data["draft_text"]\<close>; a missing entry and \<open>None\<close> read the same)
  and the global \<open>ADMIN_GROUP_ID\<close>.
\<close>

record state =
  store :: db
  ADMIN_WAITING_REPLY_FOR :: "int \<rightharpoonup> int"
  COOLDOWN_UNTIL :: "int \<rightharpoonup> real"
  draft_text :: "int \<rightharpoonup> pystr"
  ADMIN_GROUP_ID :: "int option"

definition get_main_menu :: markup where
  "get_main_menu = ReplyKeyboard [[menu_send, menu_language], [menu_owner, menu_help]]"

definition start :: "tg_user \<Rightarrow> real \<Rightarrow> state \<Rightarrow> state \<times> action list" where
  "start u now s =
     (let s' = s\<lparr>store := upsert_user (store s) u None now\<rparr>;
          welcome_msg = (str ''<b>'' @ [128075] @ str '' Welcome!</b>'' @ [10, 10] @ str ''<b>How to message the owner:</b>'' @ [10] @ str ''1) '' @ [128221] @ str '' Write everything in <b>one</b> message'' @ [10] @ str ''2) '' @ [9989] @ str '' Confirm (Yes)'' @ [10] @ str ''3) '' @ [9203] @ str '' Wait for cooldown (10s)'' @ [10, 10] @ str ''<b>Owner:</b> '') @ OWNER_USERNAME @
            (if is_owner (tg_id u)
             then [10, 10] @ str ''Owner Telegram ID: <code>'' @ str_int ADMIN_ID @ str ''</code>''
             else [])
      in (s', [SendMessage (tg_id u) welcome_msg get_main_menu HTML]))"

definition owner_cmd :: "tg_user \<Rightarrow> state \<Rightarrow> state \<times> action list" where
  "owner_cmd u s =
     (s, [SendMessage (tg_id u)
            (str ''Owner: '' @ OWNER_USERNAME @ str '' | ID: <code>7370821047</code>'') NoMarkup HTML])"

definition help_cmd :: "tg_user \<Rightarrow> state \<Rightarrow> state \<times> action list" where
  "help_cmd u s =
     (s, [SendMessage (tg_id u)
            (str ''<b>'' @ [8505, 65039] @ str '' How to use the bot:</b>'' @ [10, 10] @ str ''1) '' @ [128221] @ str '' Write your full message in <b>one</b> go.'' @ [10] @ str ''2) '' @ [9989] @ str '' Tap <b>Yes</b> when asked to confirm.'' @ [10] @ str ''3) '' @ [9203] @ str '' Wait for 10 seconds before sending another.'' @ [10, 10] @ str ''<i>Your message will be reviewed by the owner.</i>'') NoMarkup HTML])"

definition lang_cmd :: "tg_user \<Rightarrow> real \<Rightarrow> state \<Rightarrow> state \<times> action list" where
  "lang_cmd u now s =
     (let s' = s\<lparr>store := upsert_user (store s) u None now\<rparr>;
          kb = InlineKeyboard [[(str ''English'', str ''LANG:en''), (str ''Hinglish'', str ''LANG:hinglish'')]]
      in (s', [SendMessage (tg_id u) (t (store s') (tg_id u) (str ''lang_choose'')) kb None]))"

definition on_lang_callback :: "tg_user \<Rightarrow> pystr \<Rightarrow> real \<Rightarrow> state \<Rightarrow> state \<times> action list" where
  "on_lang_callback u code now s =
     (let s' = s\<lparr>store := upsert_user (store s) u (Some code) now\<rparr>
      in (s', [Answer None False,
               EditMessageText (if code = str ''en'' then t (store s') (tg_id u) (str ''lang_now_en'')
                                else t (store s') (tg_id u) (str ''lang_now_hi'')) NoMarkup None]))"

definition aesthetic_reply :: "pystr \<Rightarrow> pystr" where
  "aesthetic_reply txt =
     (str ''<b>'' @ [10024] @ str '' Response from Owner '' @ [10024] @ str ''</b>'' @ [10, 9472, 9472, 9472, 9472, 9472, 9472, 9472, 9472, 9472, 9472, 9472, 9472, 9472, 9472, 9472, 9472, 9472, 9472, 9472, 10]) @ txt @
     ([10, 9472, 9472, 9472, 9472, 9472, 9472, 9472, 9472, 9472, 9472, 9472, 9472, 9472, 9472, 9472, 9472, 9472, 9472, 9472, 10] @ str ''<i>Thank you for reaching out!</i>'')"

definition clear_waiting :: "state \<Rightarrow> state" where
  "clear_waiting s = s\<lparr>ADMIN_WAITING_REPLY_FOR := (ADMIN_WAITING_REPLY_FOR s)(ADMIN_ID := None)\<rparr>"

text \<open>
  \<open>user_or_admin_text\<close>, for a text message of user \<open>u\<close> in chat \<open>chat\<close> at time \<open>now\<close>.
  The menu labels are answered first. Then the gate: it either ends the handler with its
  answer or lets the message through. Then the reply of the owner, then the draft of a user.
\<close>

definition user_or_admin_text :: "tg_user \<Rightarrow> int \<Rightarrow> pystr \<Rightarrow> real \<Rightarrow> state \<Rightarrow> state \<times> action list" where
  "user_or_admin_text u chat txt now s =
     (let uid = tg_id u; d = store s in
      if txt = menu_send then
        (s, [SendMessage uid (str ''Write everything in one message and send it.'') NoMarkup None])
      else if txt = menu_language then lang_cmd u now s
      else if txt = menu_owner then owner_cmd u s
      else if txt = menu_help then help_cmd u s
      else
        (case (if \<not> is_owner uid then
                 (if get_ban d uid \<noteq> None then
                    Some (s, [SendMessage uid (t d uid (str ''banned'')) NoMarkup None])
                  else if now < (case COOLDOWN_UNTIL s uid of None \<Rightarrow> 0 | Some until \<Rightarrow> until) then
                    Some (s, [SendMessage uid (t d uid (str ''cooldown'')) NoMarkup None])
                  else None)
               else
                 (if txt \<notin> set menu_labels \<and> \<not> truthy_int (ADMIN_WAITING_REPLY_FOR s ADMIN_ID) then
                    Some (s, [SendMessage uid (str ''You are the owner bruh '' @ [128529]) NoMarkup None])
                  else None))
         of
           Some answered \<Rightarrow> answered
         | None \<Rightarrow>
             (if is_owner uid \<and> truthy_int (ADMIN_WAITING_REPLY_FOR s ADMIN_ID) then
                (let rid = the (ADMIN_WAITING_REPLY_FOR s ADMIN_ID) in
                 case get_request d rid of
                   None \<Rightarrow>
                     (clear_waiting s, [SendMessage chat (str ''Request not found.'') NoMarkup None])
                 | Some req \<Rightarrow>
                     (if get_ban d (r_user_id req) \<noteq> None then
                        (clear_waiting s,
                         [SendMessage chat (str ''Cannot reply: user is banned.'') NoMarkup None])
                      else
                        (clear_waiting (s\<lparr>store := set_request_status d rid (str ''approved'')\<rparr>),
                         [SendMessage (r_user_id req) (aesthetic_reply txt) NoMarkup HTML,
                          SendMessage chat (t d ADMIN_ID (str ''admin_reply_sent'')) NoMarkup None])))
              else if \<not> is_owner uid then
                (let kb = InlineKeyboard [[(str ''Yes'', CB_CONFIRM_YES), (str ''No'', CB_CONFIRM_NO)]];
                     confirm_text = [10067] @ str '' <b>Confirm submission</b>'' @ [10] @ str ''Send this message to the owner?''
                 in (s\<lparr>store := upsert_user d u None now, draft_text := (draft_text s)(uid \<mapsto> txt)\<rparr>,
                     [SendMessage uid confirm_text kb HTML]))
              else (s, []))))"

text \<open>The handle stored with a request: \<open>("@" + user.username) if user.username else "(no username)"\<close>.\<close>

definition handle_of :: "tg_user \<Rightarrow> pystr" where
  "handle_of u = (if truthy_str (tg_username u) then [64] @ the (tg_username u) else str ''(no username)'')"

definition admin_msg :: "tg_user \<Rightarrow> pystr \<Rightarrow> created \<Rightarrow> pystr" where
  "admin_msg u draft res =
     (str ''<b>'' @ [129534] @ str '' New Request</b>'' @ [10] @ str ''<b>Thread:</b> <code>'') @ str_int (c_thread_id res) @
     str ''</code> | <b>Part:</b> <code>'' @ str_int (c_part_no res) @ str ''</code>'' @ [10, 10] @
     str ''<b>User:</b> '' @ html_escape (handle_of u) @ [10] @
     str ''<b>TG ID:</b> <code>'' @ str_int (tg_id u) @ str ''</code>'' @ [10, 10] @
     str ''<b>Message:</b>'' @ [10] @
     str ''<blockquote>'' @ html_escape draft @ str ''</blockquote>''"

definition admin_kb :: "int \<Rightarrow> markup" where
  "admin_kb rid =
     InlineKeyboard [[([9993, 65039] @ str '' Reply'', CB_REPLY_PREFIX @ str_int rid),
                      ([9940] @ str '' Reject'', CB_REJECT_PREFIX @ str_int rid)]]"

text \<open>
  \<open>on_confirm_callback\<close>, for a press of Yes or No (\<open>q.data\<close> is \<open>data\<close>) by user \<open>u\<close> at
  time \<open>now\<close>.
\<close>

definition on_confirm_callback :: "tg_user \<Rightarrow> pystr \<Rightarrow> real \<Rightarrow> state \<Rightarrow> state \<times> action list" where
  "on_confirm_callback u data now s =
     (let uid = tg_id u; d = store s in
      if \<not> is_owner uid \<and> get_ban d uid \<noteq> None then
        (s, [Answer None False, EditMessageText (t d uid (str ''banned'')) NoMarkup None])
      else if is_owner uid then (s, [Answer None False])
      else if data = CB_CONFIRM_NO then
        (s\<lparr>draft_text := (draft_text s)(uid := None)\<rparr>,
         [Answer None False, EditMessageText (t d uid (str ''write_again'')) NoMarkup None])
      else if \<not> truthy_str (draft_text s uid) then
        (s, [Answer None False, EditMessageText (t d uid (str ''write_again'')) NoMarkup None])
      else
        (let draft = the (draft_text s uid);
             (d', res) = create_request d now uid (handle_of u) draft;
             target_chat = (if truthy_int (ADMIN_GROUP_ID s) then the (ADMIN_GROUP_ID s) else ADMIN_ID)
         in (s\<lparr>store := d', draft_text := (draft_text s)(uid := None),
               COOLDOWN_UNTIL := (COOLDOWN_UNTIL s)(uid \<mapsto> now + 10)\<rparr>,
             [Answer None False,
              SendMessage target_chat (admin_msg u draft res) (admin_kb (c_request_id res)) HTML,
              EditMessageText (t d' uid (str ''sent_to_admin'')) NoMarkup None])))"

section \<open>Admin console\<close>

subsection \<open>Search\<close>

text \<open>
  The SQL operator \<open>LIKE\<close>, pattern first: \<open>%\<close> (code point 37) stands for any run of
  characters and \<open>_\<close> (code point 95) for any one character; every other character of the
  pattern stands for itself. The escape character of the operator depends on the database
  and is not modelled.
\<close>

fun like :: "pystr \<Rightarrow> pystr \<Rightarrow> bool" where
  "like [] [] = True"
| "like [] (c # cs) = False"
| "like (p # ps) [] = (p = 37 \<and> like ps [])"
| "like (p # ps) (c # cs) =
     (if p = 37 then like ps (c # cs) \<or> like (p # ps) cs
      else (p = 95 \<or> p = c) \<and> like ps cs)"

text \<open>\<open>column.ilike(pattern)\<close>: \<open>LIKE\<close> without regard to case; a NULL column matches nothing.\<close>

definition ilike :: "pystr option \<Rightarrow> pystr \<Rightarrow> bool" where
  "ilike col pattern = (case col of None \<Rightarrow> False | Some v \<Rightarrow> like (py_lower pattern) (py_lower v))"

text \<open>
  \<open>str.isdigit\<close> and \<open>int\<close> on a string of ASCII digits (digits of other scripts are
  not modelled).
\<close>

definition isdigit :: "pystr \<Rightarrow> bool" where
  "isdigit q \<longleftrightarrow> q \<noteq> [] \<and> (\<forall>c \<in> set q. 48 \<le> c \<and> c \<le> 57)"

definition int_of_digits :: "pystr \<Rightarrow> int" where
  "int_of_digits q = foldl (\<lambda>acc c. 10 * acc + int (c - 48)) 0 q"

definition search_requests :: "db \<Rightarrow> pystr \<Rightarrow> request_row list" where
  "search_requests d query =
     (let q =
        (if starts_with query [64] then
           filter (\<lambda>r. ilike (r_username r) ([37] @ drop 1 query @ [37])) (requests d)
         else if isdigit query then
           (let val = int_of_digits query
            in filter (\<lambda>r. r_user_id r = val \<or> request_id r = val) (requests d))
         else
           filter (\<lambda>r. ilike (Some (r_text r)) ([37] @ query @ [37])) (requests d))
      in take 10 (order_desc created_at q))"

text \<open>
  The body shown for one result in \<open>search_cmd\<close>:
  \<open>(r['text'][:80] + '...') if len(r['text']) > 80 else r['text']\<close>.
\<close>

definition shown_text :: "pystr \<Rightarrow> pystr" where
  "shown_text txt = (if length txt > 80 then take 80 txt @ str ''...'' else txt)"

text \<open>One result of \<open>search_cmd\<close>; \<open>strftime\<close> is the formatting of a timestamp.\<close>

definition search_line :: "(real \<Rightarrow> pystr) \<Rightarrow> request_row \<Rightarrow> pystr" where
  "search_line strftime r =
     str ''ID:'' @ str_int (request_id r) @ str '' | T:'' @ str_opt_int (thread_id r) @
     str '' P:'' @ str_opt_int (part_no r) @ str '' | '' @ strftime (created_at r) @
     str '' | '' @ status r @ [10] @
     str ''U:'' @ str_int (r_user_id r) @ str '' '' @ str_opt (r_username r) @ [10] @
     str ''Text: '' @ shown_text (r_text r)"

text \<open>\<open>[msg[i:i+4000] for i in range(0, len(msg), 4000)]\<close>.\<close>

fun chunks :: "nat \<Rightarrow> nat \<Rightarrow> pystr \<Rightarrow> pystr list" where
  "chunks 0 n msg = []"
| "chunks (Suc fuel) n msg = (if msg = [] then [] else take n msg # chunks fuel n (drop n msg))"

text \<open>
  \<open>search_cmd\<close>, with the arguments of the command. The loop over the chunks runs at most
  once per character of the message.
\<close>

definition search_cmd :: "(real \<Rightarrow> pystr) \<Rightarrow> tg_user \<Rightarrow> pystr list \<Rightarrow> state \<Rightarrow> action list" where
  "search_cmd strftime u args s =
     (if \<not> is_owner (tg_id u) then
        [SendMessage (tg_id u) (str ''WTF you are not the owner man '' @ [128529]) NoMarkup None]
      else if args = [] then
        [SendMessage ADMIN_ID (str ''Usage: /search <user_id | @username | keyword>'') NoMarkup None]
      else
        (let query = py_join (str '' '') args;
             results = search_requests (store s) query
         in if results = [] then
              [SendMessage ADMIN_ID (str ''No matching requests found.'') NoMarkup None]
            else
              (let msg = py_join [10, 10] (map (search_line strftime) results)
               in if length msg > 4000 then
                    map (\<lambda>chunk. SendMessage ADMIN_ID chunk NoMarkup None) (chunks (length msg) 4000 msg)
                  else [SendMessage ADMIN_ID msg NoMarkup None])))"

subsection \<open>The user list\<close>

text \<open>\<open>get_paginated_users\<close>; the pages are those of the buttons, from 0.\<close>

definition get_paginated_users :: "db \<Rightarrow> nat \<Rightarrow> nat \<Rightarrow> user_row list \<times> nat" where
  "get_paginated_users d page per_page =
     (let offset = page * per_page;
          query = order_desc updated_at (filter (\<lambda>r. user_id r \<noteq> ADMIN_ID) (users d));
          tot = length query
      in (take per_page (drop offset query), tot))"

record user_stats =
  s_username :: "pystr option"
  s_first_name :: "pystr option"
  s_user_id :: int
  s_req_count :: nat
  s_is_banned :: bool

definition get_user_stats :: "db \<Rightarrow> int \<Rightarrow> user_stats option" where
  "get_user_stats d uid =
     (case get_user d uid of
        None \<Rightarrow> None
      | Some r \<Rightarrow>
          Some \<lparr>s_username = username r, s_first_name = first_name r, s_user_id = user_id r,
                s_req_count = length (filter (\<lambda>q. r_user_id q = uid) (requests d)),
                s_is_banned = (bans d uid \<noteq> None)\<rparr>)"

text \<open>\<open>users[i:i+2] for i in range(0, len(users), 2)\<close>: the rows of two buttons.\<close>

fun pairs :: "'a list \<Rightarrow> 'a list list" where
  "pairs [] = []"
| "pairs [x] = [[x]]"
| "pairs (x # y # zs) = [x, y] # pairs zs"

definition user_button :: "nat \<Rightarrow> user_row \<Rightarrow> pystr \<times> pystr" where
  "user_button page r =
     ((if truthy_str (username r) then [128073] @ the (username r)
       else ([128073] @ str ''(no username) - '') @ str_opt (first_name r)),
      CB_STAT_USER @ str_int (user_id r) @ str '':'' @ str_int (int page))"

text \<open>The number shown after "Total Users:": \<open>total - 1 if total > 0 else 0\<close>.\<close>

definition shown_total :: "nat \<Rightarrow> int" where
  "shown_total tot = (if tot > 0 then int tot - 1 else 0)"

definition status_text :: "nat \<Rightarrow> nat \<Rightarrow> pystr" where
  "status_text page tot =
     (str ''<b>'' @ [128100] @ str '' User List (Page '') @ str_int (int page + 1) @ str '')</b>'' @ [10] @
     str ''Total Users: '' @ str_int (shown_total tot)"

text \<open>
  \<open>render_status_page\<close>: \<open>from_command\<close> says whether it was called with the update of the
  status command (the page is sent) or with a callback query (the message is edited).
\<close>

definition render_status_page :: "db \<Rightarrow> bool \<Rightarrow> nat \<Rightarrow> action list" where
  "render_status_page d from_command page =
     (let (us, tot) = get_paginated_users d page 20;
          buttons = map (map (user_button page)) (pairs us);
          nav_row = (if page > 0 then [([11013, 65039] @ str '' Prev'', CB_STAT_PAGE @ str_int (int page - 1))] else []) @
                    (if (page + 1) * 20 < tot then [(str ''Next '' @ [10145, 65039], CB_STAT_PAGE @ str_int (int page + 1))] else []);
          kb = InlineKeyboard (buttons @ (if nav_row \<noteq> [] then [nav_row] else []) @
                               [[([128260] @ str '' Refresh'', CB_STAT_REFRESH @ str_int (int page))]]);
          txt = status_text page tot
      in if from_command then [SendMessage ADMIN_ID txt kb HTML]
         else [EditMessageText txt kb HTML])"

definition status_cmd :: "tg_user \<Rightarrow> state \<Rightarrow> action list" where
  "status_cmd u s =
     (if \<not> is_owner (tg_id u) then
        [SendMessage (tg_id u) (str ''WTF you are not the owner man '' @ [128529]) NoMarkup None]
      else render_status_page (store s) True 0)"

definition render_user_detail :: "db \<Rightarrow> int \<Rightarrow> nat \<Rightarrow> action list" where
  "render_user_detail d uid page =
     (case get_user_stats d uid of
        None \<Rightarrow> [Answer (Some (str ''User not found'')) False]
      | Some stats \<Rightarrow>
          [EditMessageText
             (str ''<blockquote>'' @ ([10024] @ str '' '') @
              (if truthy_str (s_username stats) then html_escape (the (s_username stats))
               else str ''(no username)'') @
              ([10, 127380] @ str '' ID : <code>'') @ str_int (s_user_id stats) @
              (str ''</code>'' @ [10, 128223] @ str '' Requests : '') @ str_int (int (s_req_count stats)) @
              ([10, 128533] @ str '' Blocked : '') @ (if s_is_banned stats then str ''YES'' else str ''NO'') @
              str ''</blockquote>'')
             (InlineKeyboard [[([11013, 65039] @ str '' Back'', CB_STAT_BACK @ str_int (int page))]]) HTML])"

subsection \<open>Buttons of the owner\<close>

text \<open>
  The callback data of a button after the parsing that \<open>admin_buttons\<close> does on it
  (the prefix test, \<open>split\<close> and \<open>int\<close>). \<open>Unhandled\<close> is data that no branch takes or on
  which the parsing raises: the handler then ends after its answer to the query.
\<close>

datatype payload =
    StatPage nat
  | StatRefresh nat
  | StatUser int nat
  | StatBack nat
  | GroupCheck int
  | ReplyTo int
  | Reject int
  | Unhandled

text \<open>What \<open>get_chat_member\<close> gives: the status of the bot in the group, or an exception.\<close>

datatype member_lookup = MemberStatus pystr | LookupFails pystr

text \<open>
  What \<open>admin_buttons\<close> reads besides the state: the text of the message that carries the
  button (\<open>q.message.text_html\<close>), the three formatted readings of the local clock and
  the answer of \<open>get_chat_member\<close>.
\<close>

record button_context =
  text_html :: pystr
  time_str :: pystr
  date_str :: pystr
  year_str :: pystr
  chat_member :: member_lookup

definition retry_kb :: "int \<Rightarrow> markup" where
  "retry_kb gid = InlineKeyboard [[(str ''Retry '' @ [9851, 65039], CB_GRP_RETRY @ str_int gid)]]"

definition reply_stamp :: "button_context \<Rightarrow> pystr" where
  "reply_stamp c = ([10, 10, 10024] @ str ''Request has been replied '' @ [9989, 10, 128073] @ str ''Time '' @ [9202, 65039] @ str '' : '') @ time_str c @ ([10, 128073] @ str ''Date '' @ [128197] @ str '' : '') @ date_str c @ ([10, 128073] @ str ''Year '' @ [129511] @ str '' : '') @ year_str c"

definition reject_stamp :: "button_context \<Rightarrow> pystr" where
  "reject_stamp c = ([10, 10, 10024] @ str ''Request denied '' @ [10060, 10, 128073] @ str ''Time '' @ [9200] @ str '' : '') @ time_str c @ ([10, 128073] @ str ''Date '' @ [128197] @ str '' : '') @ date_str c @ ([10, 128073] @ str ''Year '' @ [127882] @ str '' : '') @ year_str c"

definition reject_msg :: pystr where
  "reject_msg = [10024] @ str '' Your request has been denied '' @ [10060, 10, 10] @ str ''You can send a new message after the cooldown.''"

definition admin_buttons :: "tg_user \<Rightarrow> payload \<Rightarrow> button_context \<Rightarrow> state \<Rightarrow> state \<times> action list" where
  "admin_buttons u data c s =
     (let d = store s in
      if tg_id u \<noteq> ADMIN_ID then (s, [Answer (Some (str ''Not allowed'')) True])
      else
        (case data of
           StatPage page \<Rightarrow> (s, Answer None False # render_status_page d False page)
         | StatRefresh page \<Rightarrow> (s, Answer None False # render_status_page d False page)
         | StatUser uid page \<Rightarrow> (s, Answer None False # render_user_detail d uid page)
         | StatBack page \<Rightarrow> (s, Answer None False # render_status_page d False page)
         | GroupCheck gid \<Rightarrow>
             (case chat_member c of
                MemberStatus st \<Rightarrow>
                  (if st \<in> set [str ''administrator'', str ''creator''] then
                     (s\<lparr>store := set_setting d (str ''admin_group_id'') (str_int gid),
                        ADMIN_GROUP_ID := Some gid\<rparr>,
                      [Answer None False, EditMessageText (str ''Done '' @ [9989]) NoMarkup None,
                       SendMessage gid (str ''<b>Group Activated!</b>'' @ [10, 10] @ str ''Please ensure I have these permissions:'' @ [10, 8226] @ str '' Send Messages'' @ [10, 8226] @ str '' Delete Messages (for cleanup)'') NoMarkup HTML])
                   else
                     (s, [Answer None False,
                          EditMessageText ((str ''Check again buddy after making me admin '' @ [128580] @ str ''!'')) (retry_kb gid) None]))
              | LookupFails e \<Rightarrow>
                  (s, [Answer None False,
                       EditMessageText (str ''Error: '' @ html_escape e @ [10] @ (str ''Check again buddy after making me admin '' @ [128580] @ str ''!'')) (retry_kb gid) None]))
         | ReplyTo rid \<Rightarrow>
             (case get_request d rid of
                None \<Rightarrow> (s, [Answer None False, SendMessage ADMIN_ID (str ''Request not found.'') NoMarkup None])
              | Some req \<Rightarrow>
                  (if get_ban d (r_user_id req) \<noteq> None then
                     (s, [Answer None False,
                          SendMessage ADMIN_ID (str ''Cannot reply: user is banned.'') NoMarkup None])
                   else
                     (s\<lparr>ADMIN_WAITING_REPLY_FOR := (ADMIN_WAITING_REPLY_FOR s)(ADMIN_ID \<mapsto> rid)\<rparr>,
                      [Answer None False,
                       SendMessage ADMIN_ID (t d ADMIN_ID (str ''admin_reply_prompt'')) NoMarkup None,
                       EditMessageText (text_html c @ reply_stamp c) NoMarkup HTML])))
         | Reject rid \<Rightarrow>
             (case get_request d rid of
                None \<Rightarrow> (s, [Answer None False, SendMessage ADMIN_ID (str ''Request not found.'') NoMarkup None])
              | Some req \<Rightarrow>
                  (s\<lparr>store := set_request_status d rid (str ''rejected'')\<rparr>,
                   [Answer None False] @
                   (if get_ban d (r_user_id req) = None
                    then [SendMessage (r_user_id req) reject_msg NoMarkup None] else []) @
                   [SendMessage ADMIN_ID (t d ADMIN_ID (str ''admin_rejected'')) NoMarkup None,
                    EditMessageText (text_html c @ reject_stamp c) NoMarkup HTML]))
         | Unhandled \<Rightarrow> (s, [Answer None False])))"

subsection \<open>Ban, unban and clean\<close>

text \<open>
  The arguments of a command: none, or a first argument as \<open>int\<close> reads it (\<open>None\<close> when
  \<open>int\<close> raises \<open>ValueError\<close>) and the arguments after it.
\<close>

datatype cmd_args = NoArgs | Args "int option" "pystr list"

definition ban_cmd :: "tg_user \<Rightarrow> cmd_args \<Rightarrow> real \<Rightarrow> state \<Rightarrow> state \<times> action list" where
  "ban_cmd u args now s =
     (if \<not> is_owner (tg_id u) then
        (s, [SendMessage (tg_id u) (str ''WTF you are not the owner man '' @ [128529]) NoMarkup None])
      else
        (case args of
           NoArgs \<Rightarrow> (s, [SendMessage ADMIN_ID (str ''Usage: /ban <user_id> [reason...]'') NoMarkup None])
         | Args None rest \<Rightarrow> (s, [SendMessage ADMIN_ID (str ''Invalid user ID.'') NoMarkup None])
         | Args (Some target_id) rest \<Rightarrow>
             (let rsn = (if rest \<noteq> [] then py_join (str '' '') rest else str ''No reason'')
              in (s\<lparr>store := ban_user (store s) target_id rsn now\<rparr>,
                  [SendMessage ADMIN_ID
                     (str ''Banned '' @ str_int target_id @ str ''. Reason: '' @ rsn) NoMarkup None]))))"

definition unban_cmd :: "tg_user \<Rightarrow> cmd_args \<Rightarrow> state \<Rightarrow> state \<times> action list" where
  "unban_cmd u args s =
     (if \<not> is_owner (tg_id u) then
        (s, [SendMessage (tg_id u) (str ''WTF you are not the owner man '' @ [128529]) NoMarkup None])
      else
        (case args of
           NoArgs \<Rightarrow> (s, [SendMessage ADMIN_ID (str ''Usage: /unban <user_id>'') NoMarkup None])
         | Args None rest \<Rightarrow> (s, [SendMessage ADMIN_ID (str ''Invalid user ID.'') NoMarkup None])
         | Args (Some target_id) rest \<Rightarrow>
             (s\<lparr>store := unban_user (store s) target_id\<rparr>,
              [SendMessage ADMIN_ID (str ''Unbanned '' @ str_int target_id @ str ''.'') NoMarkup None])))"

definition clean_callback :: "tg_user \<Rightarrow> pystr \<Rightarrow> state \<Rightarrow> state \<times> action list" where
  "clean_callback u data s =
     (if \<not> is_owner (tg_id u) then (s, [Answer None False])
      else if data = CB_CLEAN_NO then
        (s, [Answer None False, EditMessageText (str ''Cancelled. Nothing was deleted.'') NoMarkup None])
      else
        (s\<lparr>store := clean_requests (store s)\<rparr>,
         [Answer None False,
          EditMessageText ([9989] @ str '' Clean completed. All requests were deleted.'') NoMarkup None]))"

section \<open>The bot as a state machine\<close>

text \<open>
  The updates whose handlers write the state. The other commands (owner, help, chatid,
  addgrp, search, clean, banned, status) only read it. A press of Yes or No reaches
  \<open>on_confirm_callback\<close> and \<open>clean_callback\<close> with one of the two payloads of the
  buttons, as the patterns of their registration say.
\<close>

datatype event =
    StartCommand tg_user
  | LangCommand tg_user
  | LangCallback tg_user pystr
  | TextMessage tg_user int pystr
  | ConfirmCallback tg_user bool
  | CleanCallback tg_user bool
  | BanCommand tg_user cmd_args
  | UnbanCommand tg_user cmd_args
  | AdminCallback tg_user payload button_context

text \<open>
  One update, handled at time \<open>now\<close>: the new state and what is sent. The application
  is built without concurrent updates, so a handler runs from its first to its last
  statement on the state that the handler before it has left; all readings of the clock in
  one handler are the one instant \<open>now\<close>.
\<close>

fun handle :: "real \<Rightarrow> event \<Rightarrow> state \<Rightarrow> state \<times> action list" where
  "handle now (StartCommand u) s = start u now s"
| "handle now (LangCommand u) s = lang_cmd u now s"
| "handle now (LangCallback u code) s = on_lang_callback u code now s"
| "handle now (TextMessage u chat txt) s = user_or_admin_text u chat txt now s"
| "handle now (ConfirmCallback u yes) s =
     on_confirm_callback u (if yes then CB_CONFIRM_YES else CB_CONFIRM_NO) now s"
| "handle now (CleanCallback u yes) s = clean_callback u (if yes then CB_CLEAN_YES else CB_CLEAN_NO) s"
| "handle now (BanCommand u args) s = ban_cmd u args now s"
| "handle now (UnbanCommand u args) s = unban_cmd u args s"
| "handle now (AdminCallback u data c) s = admin_buttons u data c s"

text \<open>A run: the updates with their times, one after the other.\<close>

fun run :: "(real \<times> event) list \<Rightarrow> state \<Rightarrow> state" where
  "run [] s = s"
| "run ((now, e) # es) s = run es (fst (handle now e s))"

text \<open>The process starts on an empty store with empty dictionaries.\<close>

definition init_state :: "int option \<Rightarrow> state" where
  "init_state gid =
     \<lparr>store = empty_db, ADMIN_WAITING_REPLY_FOR = Map.empty, COOLDOWN_UNTIL = Map.empty,
      draft_text = Map.empty, ADMIN_GROUP_ID = gid\<rparr>"

inductive reachable :: "state \<Rightarrow> bool" where
  reachable_init: "reachable (init_state gid)"
| reachable_step: "reachable s \<Longrightarrow> reachable (fst (handle now e s))"

section \<open>Invariants and specifications\<close>

text \<open>
  What every store that the handlers can produce satisfies: each request has a thread and a
  part number, its key is positive and below the counter, and no key occurs twice.
\<close>

definition store_ok :: "db \<Rightarrow> bool" where
  "store_ok d \<longleftrightarrow>
     (\<forall>r \<in> set (requests d). thread_id r \<noteq> None \<and> part_no r \<noteq> None \<and>
        0 < request_id r \<and> request_id r < next_request_id d) \<and>
     distinct (map request_id (requests d)) \<and> 0 < next_request_id d"

text \<open>The part numbers already present in a thread.\<close>

definition thread_parts :: "db \<Rightarrow> int option \<Rightarrow> int set" where
  "thread_parts d tid = {p. \<exists>r \<in> set (requests d). thread_id r = tid \<and> part_no r = Some p}"

text \<open>
  What one update can do to the requests table: nothing at all, one call of
  \<open>set_request_status\<close>, one call of \<open>create_request\<close>, or the deletion of all rows.
\<close>

definition store_step :: "real \<Rightarrow> db \<Rightarrow> db \<Rightarrow> bool" where
  "store_step now d d' \<longleftrightarrow>
     (requests d' = requests d \<and> next_request_id d' = next_request_id d) \<or>
     (\<exists>rid st. d' = set_request_status d rid st) \<or>
     (\<exists>uid h txt. d' = fst (create_request d now uid h txt)) \<or>
     d' = clean_requests d"

text \<open>
  What an update does to the requests table, with the update that does it: nothing; the
  owner's text while the slot holds \<open>rid\<close> sets that request to approved; the owner's
  Reject of \<open>rid\<close> sets that request to rejected; the Yes of a user who is neither the owner
  nor banned and has a draft adds one pending request of that user; the owner's Yes to
  the clean prompt deletes all rows.
\<close>

definition requests_effect :: "real \<Rightarrow> event \<Rightarrow> state \<Rightarrow> request_row list \<Rightarrow> bool" where
  "requests_effect now e s rows \<longleftrightarrow>
     rows = requests (store s) \<or>
     (\<exists>u chat body rid. e = TextMessage u chat body \<and> is_owner (tg_id u) \<and>
        ADMIN_WAITING_REPLY_FOR s ADMIN_ID = Some rid \<and>
        rows = requests (set_request_status (store s) rid (str ''approved''))) \<or>
     (\<exists>u rid c. e = AdminCallback u (Reject rid) c \<and> tg_id u = ADMIN_ID \<and>
        rows = requests (set_request_status (store s) rid (str ''rejected''))) \<or>
     (\<exists>u new. e = ConfirmCallback u True \<and> \<not> is_owner (tg_id u) \<and>
        get_ban (store s) (tg_id u) = None \<and> truthy_str (draft_text s (tg_id u)) \<and>
        r_user_id new = tg_id u \<and> status new = str ''pending'' \<and>
        rows = requests (store s) @ [new]) \<or>
     (\<exists>u. e = CleanCallback u True \<and> is_owner (tg_id u) \<and> rows = [])"

text \<open>
  What an update does to the cooldown dictionary and to the drafts, with the update that
  does it: nothing; the text of a user who passes the gate stores the draft; No clears the
  draft; Yes with a draft clears it and starts the cooldown of ten seconds.
\<close>

definition session_effect :: "real \<Rightarrow> event \<Rightarrow> state \<Rightarrow> state \<Rightarrow> bool" where
  "session_effect now e s s' \<longleftrightarrow>
     (COOLDOWN_UNTIL s' = COOLDOWN_UNTIL s \<and> draft_text s' = draft_text s) \<or>
     (\<exists>u chat body. e = TextMessage u chat body \<and> \<not> is_owner (tg_id u) \<and>
        get_ban (store s) (tg_id u) = None \<and>
        \<not> now < (case COOLDOWN_UNTIL s (tg_id u) of None \<Rightarrow> 0 | Some until \<Rightarrow> until) \<and>
        COOLDOWN_UNTIL s' = COOLDOWN_UNTIL s \<and> draft_text s' = (draft_text s)(tg_id u \<mapsto> body)) \<or>
     (\<exists>u. e = ConfirmCallback u False \<and>
        COOLDOWN_UNTIL s' = COOLDOWN_UNTIL s \<and> draft_text s' = (draft_text s)(tg_id u := None)) \<or>
     (\<exists>u. e = ConfirmCallback u True \<and> truthy_str (draft_text s (tg_id u)) \<and>
        COOLDOWN_UNTIL s' = (COOLDOWN_UNTIL s)(tg_id u \<mapsto> now + 10) \<and>
        draft_text s' = (draft_text s)(tg_id u := None))"

text \<open>
  The cooldown of user \<open>uid\<close> runs until \<open>until\<close> and the user has no draft.
\<close>

definition cooling :: "int \<Rightarrow> real \<Rightarrow> state \<Rightarrow> bool" where
  "cooling uid until s \<longleftrightarrow> COOLDOWN_UNTIL s uid = Some until \<and> \<not> truthy_str (draft_text s uid)"

text \<open>Every request of user \<open>uid\<close> in \<open>s'\<close> is, but for its status, a request of \<open>s\<close>.\<close>

definition no_new_request :: "int \<Rightarrow> state \<Rightarrow> state \<Rightarrow> bool" where
  "no_new_request uid s s' \<longleftrightarrow>
     (\<forall>r' \<in> set (requests (store s')). r_user_id r' = uid \<longrightarrow>
        (\<exists>r \<in> set (requests (store s)). r' = r\<lparr>status := status r'\<rparr>))"

section \<open>Example states\<close>

text \<open>
  A user, and the state after this user has sent a text, confirmed it, and sent a second
  text once the cooldown was over.
\<close>

definition bob :: tg_user where
  "bob = \<lparr>tg_id = 42, tg_username = Some (str ''bob''), tg_first_name = str ''Bob''\<rparr>"

definition bob_drafting :: state where
  "bob_drafting =
     fst (handle 20 (TextMessage bob 42 (str ''more''))
       (fst (handle 1 (ConfirmCallback bob True)
         (fst (handle 0 (TextMessage bob 42 (str ''hello'')) (init_state None))))))"

text \<open>The state after the first confirmation of \<open>bob\<close>: one pending request, no draft.\<close>

definition bob_submitted :: state where
  "bob_submitted =
     fst (handle 1 (ConfirmCallback bob True)
       (fst (handle 0 (TextMessage bob 42 (str ''hello'')) (init_state None))))"

text \<open>
  A second user without username, the state in which both users have one pending request,
  the owner, a button context, and the rows of the two requests.
\<close>

definition carol :: tg_user where
  "carol = \<lparr>tg_id = 43, tg_username = None, tg_first_name = str ''Carol''\<rparr>"

definition two_requests :: state where
  "two_requests =
     fst (handle 3 (ConfirmCallback carol True)
       (fst (handle 2 (TextMessage carol 43 (str ''hi'')) bob_submitted)))"

definition the_owner :: tg_user where
  "the_owner = \<lparr>tg_id = ADMIN_ID, tg_username = Some (str ''FEARFLESH''), tg_first_name = str ''Owner''\<rparr>"

definition some_button :: button_context where
  "some_button = \<lparr>text_html = str ''<b>New Request</b>'', time_str = str ''10:15 AM'',
     date_str = str ''06 November'', year_str = str ''2026'', chat_member = MemberStatus (str ''member'')\<rparr>"

definition bob_request :: request_row where
  "bob_request = \<lparr>request_id = 1, r_user_id = 42, r_username = Some (str ''@bob''),
     r_text = str ''hello'', status = str ''pending'', created_at = 1,
     thread_id = Some 1, part_no = Some 1\<rparr>"

definition carol_request :: request_row where
  "carol_request = \<lparr>request_id = 2, r_user_id = 43, r_username = Some (str ''(no username)''),
     r_text = str ''hi'', status = str ''pending'', created_at = 3,
     thread_id = Some 2, part_no = Some 1\<rparr>"

text \<open>The state after the owner has replied to the request of \<open>bob\<close>.\<close>

definition bob_approved :: state where
  "bob_approved =
     fst (handle 6 (TextMessage the_owner ADMIN_ID (str ''Hi there''))
       (fst (handle 5 (AdminCallback the_owner (ReplyTo 1) some_button) bob_submitted)))"

text \<open>The state after the owner has banned \<open>bob\<close>.\<close>

definition bob_banned :: state where
  "bob_banned = fst (handle 7 (BanCommand the_owner (Args (Some 42) [str ''spam''])) bob_submitted)"

text \<open>
  The state after the second confirmation of \<open>bob\<close>, and a further text and a further Yes
  of \<open>bob\<close> within the cooldown that it starts.
\<close>

definition bob_cooling :: state where
  "bob_cooling = fst (handle 30 (ConfirmCallback bob True) bob_drafting)"

definition bob_attempts :: "(real \<times> event) list" where
  "bob_attempts = [(31, TextMessage bob 42 (str ''again'')), (32, ConfirmCallback bob True)]"

text \<open>A user whose username has no underscore, and the state after this user's first request.\<close>

definition john :: tg_user where
  "john = \<lparr>tg_id = 44, tg_username = Some (str ''johnxdoe''), tg_first_name = str ''John''\<rparr>"

definition john_submitted :: state where
  "john_submitted =
     fst (handle 1 (ConfirmCallback john True)
       (fst (handle 0 (TextMessage john 44 (str ''hello'')) (init_state None))))"

definition john_request :: request_row where
  "john_request = \<lparr>request_id = 1, r_user_id = 44, r_username = Some (str ''@johnxdoe''),
     r_text = str ''hello'', status = str ''pending'', created_at = 1,
     thread_id = Some 1, part_no = Some 1\<rparr>"

section \<open>Properties of the transport helpers\<close>

lemma send_loop_attempts: "attempts (snd (send_loop api n a)) \<le> n"
  by (induction n arbitrary: a)
     (auto simp: attempts_def split_beta le_SucI split: call_outcome.splits)

lemma edit_loop_attempts: "attempts (snd (edit_loop api n a)) \<le> n"
  by (induction n arbitrary: a)
     (auto simp: attempts_def split_beta le_SucI split: call_outcome.splits)

lemmas retry_defs = safe_send_message_def safe_edit_message_def max_retries_def rate_limited_def
  numeral_3_eq_3 numeral_2_eq_2

lemma retry_outcome_holds:
  assumes "k \<le> 3" and "\<forall>a<k. api a = RaisesRetryAfter (d a)"
  shows "retry_outcome api d k"
proof -
  from assms(1) consider "k = 0" | "k = 1" | "k = 2" | "k = 3" by arith
  then show ?thesis
  proof cases
    case 1
    then show ?thesis by (simp add: retry_outcome_def retry_defs)
  next
    case 2
    with assms(2) have "api 0 = RaisesRetryAfter (d 0)" by simp
    with 2 show ?thesis by (simp add: retry_outcome_def retry_defs)
  next
    case 3
    with assms(2) have "api 0 = RaisesRetryAfter (d 0)" "api (Suc 0) = RaisesRetryAfter (d (Suc 0))"
      by simp_all
    with 3 show ?thesis by (simp add: retry_outcome_def retry_defs)
  next
    case 4
    with assms(2) have "api 0 = RaisesRetryAfter (d 0)" "api (Suc 0) = RaisesRetryAfter (d (Suc 0))"
      "api 2 = RaisesRetryAfter (d 2)"
      by simp_all
    with 4 show ?thesis by (simp add: retry_outcome_def retry_defs)
  qed
qed

text \<open>
  Claim C9. \<open>safe_send_message\<close> and \<open>safe_edit_message\<close> call the transport at most three
  times. While the calls are answered with a rate-limit signal they sleep for the delay the
  transport supplied and try again; after three such answers they return \<open>None\<close>, having
  written log entries only. Any other exception is logged and ends the helper with \<open>None\<close>;
  no outcome of a call makes the helper raise. An edit refused with "message is not
  modified" returns \<open>True\<close>.
\<close>

theorem safe_send_edit_bounded_retry:
  "attempts (snd (safe_send_message api)) \<le> 3 \<and> attempts (snd (safe_edit_message api)) \<le> 3 \<and>
   (\<forall>k\<le>3. (\<forall>a<k. api a = RaisesRetryAfter (d a)) \<longrightarrow> retry_outcome api d k)"
  using send_loop_attempts [of api max_retries 0] edit_loop_attempts [of api max_retries 0]
  by (simp add: retry_outcome_holds safe_send_message_def safe_edit_message_def max_retries_def)

theorem safe_send_edit_bounded_retry_witness:
  "safe_send_message (\<lambda>a. if a < 3 then RaisesRetryAfter (real a + 1) else Returns (7::nat))
     = (None, [ApiCall 0, LogWarning 1 1, Sleep 1, ApiCall 1, LogWarning 2 2, Sleep 2,
               ApiCall 2, LogWarning 3 3, Sleep 3]) \<and>
   safe_edit_message (\<lambda>a. if a < 1 then RaisesRetryAfter (real a + 1)
                           else (RaisesTelegramError (str ''Bad Request: Message is not modified'') :: nat call_outcome))
     = (Some PyTrue, [ApiCall 0, LogWarning 1 1, Sleep 1, ApiCall 1])"
proof -
  let ?api = "\<lambda>a::nat. if a < 3 then RaisesRetryAfter (real a + 1) else Returns (7::nat)"
  let ?api2 = "\<lambda>a::nat. if a < 1 then RaisesRetryAfter (real a + 1)
                           else (RaisesTelegramError (str ''Bad Request: Message is not modified'') :: nat call_outcome)"
  let ?d = "\<lambda>a::nat. real a + 1"
  have "retry_outcome ?api ?d 3"
    using safe_send_edit_bounded_retry [of ?api ?d] by simp
  moreover have "retry_outcome ?api2 ?d 1"
    using safe_send_edit_bounded_retry [of ?api2 ?d] by simp
  ultimately show ?thesis
    by (simp add: retry_outcome_def rate_limited_def numeral_3_eq_3 str_def py_lower_def lower_cp_def)
qed

section \<open>Properties of the settings fallback\<close>

text \<open>
  Claim C10. When no Setting row exists for a key, \<open>get_setting\<close> returns the value of the
  environment variable whose name is the key in upper case without its underscores
  (\<open>admin_group_id\<close> reads \<open>ADMINGROUPID\<close>), and so \<open>None\<close> only when that variable is
  absent too.
\<close>

theorem get_setting_env_fallback:
  "env_name (str ''admin_group_id'') = str ''ADMINGROUPID'' \<and>
   (settings d key = None \<longrightarrow>
      get_setting d environ key = environ (env_name key) \<and>
      (get_setting d environ key = None \<longleftrightarrow> environ (env_name key) = None))"
  by (simp add: get_setting_def env_name_def py_upper_def upper_cp_def str_def)

theorem get_setting_env_fallback_witness:
  "settings empty_db (str ''admin_group_id'') = None \<and>
   get_setting empty_db [str ''ADMINGROUPID'' \<mapsto> str ''-1001''] (str ''admin_group_id'')
     = Some (str ''-1001'')"
  using get_setting_env_fallback [of empty_db "str ''admin_group_id''" "[str ''ADMINGROUPID'' \<mapsto> str ''-1001'']"]
  by (simp add: empty_db_def)

section \<open>Properties of the store and the threading of requests\<close>

lemma upsert_user_frame [simp]:
  "requests (upsert_user d u l now) = requests d"
  "next_request_id (upsert_user d u l now) = next_request_id d"
  "bans (upsert_user d u l now) = bans d"
  "settings (upsert_user d u l now) = settings d"
  by (simp_all add: upsert_user_def split: option.splits)

lemma set_request_status_frame [simp]:
  "users (set_request_status d rid st) = users d"
  "next_request_id (set_request_status d rid st) = next_request_id d"
  "bans (set_request_status d rid st) = bans d"
  "settings (set_request_status d rid st) = settings d"
  by (simp_all add: set_request_status_def)

lemma create_request_frame [simp]:
  "users (fst (create_request d now uid h txt)) = users d"
  "bans (fst (create_request d now uid h txt)) = bans d"
  "settings (fst (create_request d now uid h txt)) = settings d"
  "next_request_id (fst (create_request d now uid h txt)) = next_request_id d + 1"
  by (simp_all add: create_request_def Let_def)

lemma ban_frame [simp]:
  "requests (ban_user d uid rsn now) = requests d"
  "next_request_id (ban_user d uid rsn now) = next_request_id d"
  "users (ban_user d uid rsn now) = users d"
  "requests (unban_user d uid) = requests d"
  "next_request_id (unban_user d uid) = next_request_id d"
  "users (unban_user d uid) = users d"
  "requests (set_setting d k v) = requests d"
  "next_request_id (set_setting d k v) = next_request_id d"
  "users (set_setting d k v) = users d"
  "bans (set_setting d k v) = bans d"
  by (simp_all add: ban_user_def unban_user_def set_setting_def)

lemma get_ban_simps [simp]:
  "get_ban (upsert_user d u l now) = get_ban d"
  "get_ban (set_request_status d rid st) = get_ban d"
  "get_ban (fst (create_request d now uid h txt)) = get_ban d"
  "get_ban (clean_requests d) = get_ban d"
  by (auto simp: get_ban_def clean_requests_def fun_eq_iff)

lemma first_row_None [simp]: "first_row xs = None \<longleftrightarrow> xs = []"
  by (cases xs) (simp_all add: first_row_def)

lemma order_desc_Nil [simp]: "order_desc key xs = [] \<longleftrightarrow> xs = []"
  by (metis order_desc_def set_empty set_sort)

lemma first_row_order_desc:
  assumes "first_row (order_desc key xs) = Some e"
  shows "e \<in> set xs \<and> (\<forall>x \<in> set xs. key x \<le> key e)"
proof -
  let ?f = "\<lambda>r. - key r"
  from assms obtain rest where ys: "sort_key ?f xs = e # rest"
    by (cases "sort_key ?f xs") (simp_all add: first_row_def order_desc_def)
  have "sorted (map ?f (sort_key ?f xs))" by (rule sorted_sort_key)
  with ys have "\<forall>y \<in> set rest. ?f e \<le> ?f y" by simp
  moreover have "set xs = set (e # rest)" using ys by (metis set_sort)
  ultimately show ?thesis by auto
qed

lemma order_desc_sorted: "sorted_wrt (\<lambda>a b. key a \<ge> key b) (order_desc key xs)"
proof -
  have "sorted (map (\<lambda>r. - key r) (sort_key (\<lambda>r. - key r) xs))" by (rule sorted_sort_key)
  then show ?thesis
    by (simp add: order_desc_def sorted_map sorted_wrt_iff_nth_less)
qed

lemma set_order_desc [simp]: "set (order_desc key xs) = set xs"
  by (simp add: order_desc_def)

lemma length_order_desc [simp]: "length (order_desc key xs) = length xs"
  by (simp add: order_desc_def)

lemma fold_max_Max: "fold max vs (v::int) = Max (set (v # vs))"
  by (rule Max.set_eq_fold [symmetric])

lemma set_map_filter_id: "set (List.map_filter id col) = {v. Some v \<in> set col}"
  by (force simp: map_filter_def image_iff)

lemma sql_max_Some:
  assumes "Some p \<in> set col"
  shows "sql_max col = Some (Max {v. Some v \<in> set col})"
proof -
  have s: "set (List.map_filter id col) = {v. Some v \<in> set col}"
    by (rule set_map_filter_id)
  with assms obtain v vs where vs: "List.map_filter id col = v # vs"
    by (cases "List.map_filter id col") auto
  then have "sql_max col = Some (Max (set (v # vs)))"
    by (simp add: sql_max_def fold_max_Max del: set_simps)
  with s vs show ?thesis by simp
qed

lemma sql_max_None: "\<forall>p. Some p \<notin> set col \<Longrightarrow> sql_max col = None"
proof -
  assume a: "\<forall>p. Some p \<notin> set col"
  have "set (List.map_filter id col) = {v. Some v \<in> set col}"
    by (rule set_map_filter_id)
  with a have "List.map_filter id col = []" by (cases "List.map_filter id col") auto
  then show ?thesis by (simp add: sql_max_def)
qed

lemma or_zero_Some [simp]: "or_zero (Some i) = i" "or_zero None = 0"
  by (simp_all add: or_zero_def)

lemma store_ok_frame:
  "requests d' = requests d \<Longrightarrow> next_request_id d' = next_request_id d \<Longrightarrow> store_ok d \<Longrightarrow> store_ok d'"
  by (simp add: store_ok_def)

lemma store_ok_empty: "store_ok empty_db"
  by (simp add: store_ok_def empty_db_def)

lemma store_ok_set_status: "store_ok d \<Longrightarrow> store_ok (set_request_status d rid st)"
proof -
  assume ok: "store_ok d"
  have ids: "map request_id (requests (set_request_status d rid st)) = map request_id (requests d)"
    by (simp add: set_request_status_def o_def if_distrib [of request_id])
  have "\<forall>r \<in> set (requests (set_request_status d rid st)).
          thread_id r \<noteq> None \<and> part_no r \<noteq> None \<and> 0 < request_id r \<and> request_id r < next_request_id d"
    using ok by (auto simp: store_ok_def set_request_status_def)
  with ok ids show "store_ok (set_request_status d rid st)"
    by (simp add: store_ok_def)
qed

lemma store_ok_clean: "store_ok d \<Longrightarrow> store_ok (clean_requests d)"
  by (simp add: store_ok_def clean_requests_def)

lemma requests_create:
  "requests (fst (create_request d now uid h txt)) =
     requests d @ [\<lparr>request_id = next_request_id d, r_user_id = uid, r_username = Some h, r_text = txt,
        status = str ''pending'', created_at = now,
        thread_id = Some (c_thread_id (snd (create_request d now uid h txt))),
        part_no = Some (c_part_no (snd (create_request d now uid h txt)))\<rparr>]"
  by (simp add: create_request_def Let_def)

lemma store_ok_create:
  assumes "store_ok d"
  shows "store_ok (fst (create_request d now uid h txt))"
  using assms unfolding store_ok_def requests_create
  by (auto simp: create_request_frame)

lemma store_step_frame:
  "requests d' = requests d \<Longrightarrow> next_request_id d' = next_request_id d \<Longrightarrow> store_step now d d'"
  by (simp add: store_step_def)

lemma store_clear_waiting [simp]: "store (clear_waiting s) = store s"
  by (simp add: clear_waiting_def)

lemma start_store_step: "store_step now (store s) (store (fst (start u now s)))"
  by (simp add: start_def Let_def store_step_frame)

lemma lang_cmd_store_step: "store_step now (store s) (store (fst (lang_cmd u now s)))"
  by (simp add: lang_cmd_def Let_def store_step_frame)

lemma on_lang_callback_store_step: "store_step now (store s) (store (fst (on_lang_callback u code now s)))"
  by (simp add: on_lang_callback_def Let_def store_step_frame)

lemma user_or_admin_text_store_step:
  "store_step now (store s) (store (fst (user_or_admin_text u chat txt now s)))"
  unfolding user_or_admin_text_def Let_def
  by (auto simp: store_step_frame owner_cmd_def help_cmd_def lang_cmd_store_step
           split: option.splits intro: store_step_frame)
     (auto simp: store_step_def)

lemma on_confirm_callback_store_step:
  "store_step now (store s) (store (fst (on_confirm_callback u data now s)))"
  unfolding on_confirm_callback_def Let_def
  by (auto simp: store_step_frame split_beta split: option.splits)
     (auto simp: store_step_def)

lemma admin_buttons_store_step:
  "store_step now (store s) (store (fst (admin_buttons u data c s)))"
  unfolding admin_buttons_def Let_def
  by (auto simp: store_step_frame split: option.splits payload.splits member_lookup.splits)
     (auto simp: store_step_def)

lemma ban_cmd_store_step: "store_step now (store s) (store (fst (ban_cmd u args now s)))"
  by (auto simp: ban_cmd_def Let_def store_step_frame split: cmd_args.splits option.splits)

lemma unban_cmd_store_step: "store_step now (store s) (store (fst (unban_cmd u args s)))"
  by (auto simp: unban_cmd_def Let_def store_step_frame split: cmd_args.splits option.splits)

lemma clean_callback_store_step: "store_step now (store s) (store (fst (clean_callback u data s)))"
  by (auto simp: clean_callback_def store_step_def)

lemma handle_store_step: "store_step now (store s) (store (fst (handle now e s)))"
  by (cases e)
     (simp_all add: start_store_step lang_cmd_store_step on_lang_callback_store_step
        user_or_admin_text_store_step on_confirm_callback_store_step admin_buttons_store_step
        ban_cmd_store_step unban_cmd_store_step clean_callback_store_step)

lemma store_step_ok: "store_step now d d' \<Longrightarrow> store_ok d \<Longrightarrow> store_ok d'"
  unfolding store_step_def
  by (auto intro: store_ok_frame store_ok_set_status store_ok_create store_ok_clean)

lemma reachable_store_ok: "reachable s \<Longrightarrow> store_ok (store s)"
proof (induction rule: reachable.induct)
  case (reachable_init gid)
  show ?case by (simp add: init_state_def store_ok_empty)
next
  case (reachable_step s now e)
  then show ?case using handle_store_step store_step_ok by blast
qed

lemma existing_request_None:
  "existing_request d now uid = None \<longleftrightarrow> (\<forall>r \<in> set (requests d). \<not> recent_pending now uid r)"
  by (auto simp: existing_request_def filter_empty_conv)

lemma existing_request_Some:
  assumes "existing_request d now uid = Some e"
  shows "e \<in> set (requests d) \<and> recent_pending now uid e \<and>
         (\<forall>r \<in> set (requests d). recent_pending now uid r \<longrightarrow> created_at r \<le> created_at e)"
  using first_row_order_desc [OF assms [unfolded existing_request_def]] by auto

lemma max_part_thread:
  assumes "e \<in> set (requests d)" and "thread_id e = Some tid" and "part_no e = Some p"
  shows "max_part d (Some tid) = Max (thread_parts d (Some tid))"
proof -
  let ?col = "map part_no (filter (\<lambda>r. Some tid \<noteq> None \<and> thread_id r = Some tid) (requests d))"
  have "Some p \<in> set ?col" using assms by force
  then have "sql_max ?col = Some (Max {v. Some v \<in> set ?col})" by (rule sql_max_Some)
  moreover have "{v. Some v \<in> set ?col} = thread_parts d (Some tid)"
    by (force simp: thread_parts_def)
  ultimately show ?thesis by (simp add: max_part_def)
qed

lemma create_request_new_thread:
  assumes "existing_request d now uid = None"
  shows "snd (create_request d now uid h txt) =
           \<lparr>c_request_id = next_request_id d, c_thread_id = next_request_id d, c_part_no = 1\<rparr>"
  using assms by (simp add: create_request_def Let_def)

lemma create_request_continue:
  assumes "existing_request d now uid = Some e" and "thread_id e = Some tid"
  shows "snd (create_request d now uid h txt) =
           \<lparr>c_request_id = next_request_id d, c_thread_id = tid, c_part_no = max_part d (Some tid) + 1\<rparr>"
  using assms by (simp add: create_request_def Let_def)

lemma confirm_yes_store:
  assumes "\<not> is_owner (tg_id u)" and "get_ban (store s) (tg_id u) = None"
    and "draft_text s (tg_id u) = Some draft" and "draft \<noteq> []"
  shows "store (fst (handle now (ConfirmCallback u True) s)) =
           fst (create_request (store s) now (tg_id u) (handle_of u) draft)"
  using assms
  by (simp add: on_confirm_callback_def Let_def split_beta truthy_str_def CB_CONFIRM_YES_def
        CB_CONFIRM_NO_def str_def)

text \<open>
  Claim C1. In every reachable state, when a user who is neither the owner nor banned
  confirms a non-empty draft, exactly one request is added, with a fresh key. If the user
  has a pending request with a thread that was created less than 15 minutes ago, the new
  request takes the thread of the newest such request, and its part number is the largest
  part number of that thread plus 1. Otherwise its part number is 1 and its thread is its
  own key. Every request of the store then has a thread.
\<close>

theorem confirmed_submission_threading:
  assumes "reachable s" and "\<not> is_owner (tg_id u)" and "get_ban (store s) (tg_id u) = None"
    and "draft_text s (tg_id u) = Some draft" and "draft \<noteq> []"
  shows "\<exists>new. requests (store (fst (handle now (ConfirmCallback u True) s))) = requests (store s) @ [new] \<and>
           r_user_id new = tg_id u \<and> r_text new = draft \<and> status new = str ''pending'' \<and>
           request_id new \<notin> request_id ` set (requests (store s)) \<and>
           ((\<exists>r \<in> set (requests (store s)). recent_pending now (tg_id u) r) \<longrightarrow>
              (\<exists>e \<in> set (requests (store s)). recent_pending now (tg_id u) e \<and>
                 (\<forall>r \<in> set (requests (store s)). recent_pending now (tg_id u) r \<longrightarrow> created_at r \<le> created_at e) \<and>
                 thread_id new = thread_id e \<and>
                 part_no new = Some (Max (thread_parts (store s) (thread_id e)) + 1))) \<and>
           ((\<forall>r \<in> set (requests (store s)). \<not> recent_pending now (tg_id u) r) \<longrightarrow>
              thread_id new = Some (request_id new) \<and> part_no new = Some 1) \<and>
           (\<forall>r \<in> set (requests (store (fst (handle now (ConfirmCallback u True) s)))). thread_id r \<noteq> None)"
proof -
  let ?d = "store s" and ?uid = "tg_id u"
  let ?res = "snd (create_request ?d now ?uid (handle_of u) draft)"
  let ?new = "\<lparr>request_id = next_request_id ?d, r_user_id = ?uid, r_username = Some (handle_of u),
        r_text = draft, status = str ''pending'', created_at = now,
        thread_id = Some (c_thread_id ?res), part_no = Some (c_part_no ?res)\<rparr>"
  let ?s' = "fst (handle now (ConfirmCallback u True) s)"
  have ok: "store_ok ?d" using assms(1) by (rule reachable_store_ok)
  have st: "store ?s' = fst (create_request ?d now ?uid (handle_of u) draft)"
    using assms(2-5) by (rule confirm_yes_store)
  have reqs: "requests (store ?s') = requests ?d @ [?new]"
    unfolding st by (rule requests_create)
  have fresh: "request_id ?new \<notin> request_id ` set (requests ?d)"
    using ok by (auto simp: store_ok_def)
  have cont: "\<exists>e \<in> set (requests ?d). recent_pending now ?uid e \<and>
                 (\<forall>r \<in> set (requests ?d). recent_pending now ?uid r \<longrightarrow> created_at r \<le> created_at e) \<and>
                 thread_id ?new = thread_id e \<and>
                 part_no ?new = Some (Max (thread_parts ?d (thread_id e)) + 1)"
    if "\<exists>r \<in> set (requests ?d). recent_pending now ?uid r"
  proof -
    from that obtain e where e: "existing_request ?d now ?uid = Some e"
      using existing_request_None [of ?d now ?uid] by (cases "existing_request ?d now ?uid") auto
    from existing_request_Some [OF e] have e_in: "e \<in> set (requests ?d)"
      and e_rp: "recent_pending now ?uid e"
      and e_max: "\<forall>r \<in> set (requests ?d). recent_pending now ?uid r \<longrightarrow> created_at r \<le> created_at e"
      by auto
    from ok e_in obtain tid p where tp: "thread_id e = Some tid" "part_no e = Some p"
      by (auto simp: store_ok_def)
    have "?res = \<lparr>c_request_id = next_request_id ?d, c_thread_id = tid,
                   c_part_no = Max (thread_parts ?d (Some tid)) + 1\<rparr>"
      using create_request_continue [OF e tp(1)] max_part_thread [OF e_in tp] by simp
    with tp e_in e_rp e_max show ?thesis by auto
  qed
  have fresh_thread: "thread_id ?new = Some (request_id ?new) \<and> part_no ?new = Some 1"
    if "\<forall>r \<in> set (requests ?d). \<not> recent_pending now ?uid r"
  proof -
    from that have "existing_request ?d now ?uid = None" by (simp add: existing_request_None)
    then show ?thesis by (simp add: create_request_new_thread)
  qed
  have all: "\<forall>r \<in> set (requests (store ?s')). thread_id r \<noteq> None"
    using ok unfolding reqs by (auto simp: store_ok_def)
  show ?thesis
    using reqs fresh cont fresh_thread all
    by (intro exI [of _ ?new]) simp
qed

section \<open>Evaluation of the example states\<close>

lemmas handler_defs = user_or_admin_text_def on_confirm_callback_def admin_buttons_def
  ban_cmd_def unban_cmd_def clean_callback_def start_def lang_cmd_def on_lang_callback_def
  owner_cmd_def help_cmd_def clear_waiting_def

lemmas store_defs = upsert_user_def get_user_def get_lang_def create_request_def
  existing_request_def recent_pending_def max_part_def sql_max_def or_zero_def order_desc_def
  first_row_def get_request_def set_request_status_def clean_requests_def ban_user_def
  unban_user_def get_ban_def empty_db_def init_state_def

lemmas const_defs = ADMIN_ID_def is_owner_def menu_send_def menu_language_def menu_owner_def
  menu_help_def menu_labels_def CB_CONFIRM_YES_def CB_CONFIRM_NO_def CB_CLEAN_YES_def
  CB_CLEAN_NO_def truthy_int_def truthy_str_def handle_of_def str_def

lemma bob_drafting_eq:
  "bob_drafting =
     \<lparr>store = \<lparr>users = [\<lparr>user_id = 42, username = Some (str ''bob''), first_name = Some (str ''Bob''),
                          lang = str ''hinglish'', updated_at = 20\<rparr>],
                requests = [\<lparr>request_id = 1, r_user_id = 42, r_username = Some (str ''@bob''),
                             r_text = str ''hello'', status = str ''pending'', created_at = 1,
                             thread_id = Some 1, part_no = Some 1\<rparr>],
                next_request_id = 2, bans = Map.empty, settings = Map.empty\<rparr>,
      ADMIN_WAITING_REPLY_FOR = Map.empty, COOLDOWN_UNTIL = [42 \<mapsto> 11],
      draft_text = [42 \<mapsto> str ''more''], ADMIN_GROUP_ID = None\<rparr>"
  by (simp add: bob_drafting_def bob_def handler_defs store_defs const_defs Let_def)

theorem confirmed_submission_threading_witness:
  "reachable bob_drafting \<and> \<not> is_owner (tg_id bob) \<and> get_ban (store bob_drafting) (tg_id bob) = None \<and>
   draft_text bob_drafting (tg_id bob) = Some (str ''more'') \<and> str ''more'' \<noteq> [] \<and>
   (\<exists>new. requests (store (fst (handle 30 (ConfirmCallback bob True) bob_drafting))) =
             requests (store bob_drafting) @ [new] \<and>
          thread_id new = Some 1 \<and> part_no new = Some 2)"
proof -
  have r: "reachable bob_drafting"
    unfolding bob_drafting_def by (intro reachable.intros)
  have h: "\<not> is_owner (tg_id bob)" "get_ban (store bob_drafting) (tg_id bob) = None"
    "draft_text bob_drafting (tg_id bob) = Some (str ''more'')" "str ''more'' \<noteq> []"
    by (simp_all add: bob_drafting_eq bob_def is_owner_def ADMIN_ID_def get_ban_def str_def)
  have parts: "thread_parts (store bob_drafting) (Some 1) = {1}"
    by (auto simp: thread_parts_def bob_drafting_eq)
  from confirmed_submission_threading [OF r h, of 30]
  obtain new where n: "requests (store (fst (handle 30 (ConfirmCallback bob True) bob_drafting))) =
             requests (store bob_drafting) @ [new]"
    and c: "(\<exists>r \<in> set (requests (store bob_drafting)). recent_pending 30 (tg_id bob) r) \<longrightarrow>
              (\<exists>e \<in> set (requests (store bob_drafting)). thread_id new = thread_id e \<and>
                 part_no new = Some (Max (thread_parts (store bob_drafting) (thread_id e)) + 1))"
    by blast
  have "thread_id new = Some 1 \<and> part_no new = Some 2"
    using c parts by (simp add: bob_drafting_eq recent_pending_def bob_def str_def)
  with r h n show ?thesis by blast
qed

section \<open>What each handler does\<close>

lemma text_of_user:
  assumes "\<not> is_owner (tg_id u)" and "txt \<notin> set menu_labels"
  shows "user_or_admin_text u chat txt now s =
     (if get_ban (store s) (tg_id u) \<noteq> None then
        (s, [SendMessage (tg_id u) (t (store s) (tg_id u) (str ''banned'')) NoMarkup None])
      else if now < (case COOLDOWN_UNTIL s (tg_id u) of None \<Rightarrow> 0 | Some until \<Rightarrow> until) then
        (s, [SendMessage (tg_id u) (t (store s) (tg_id u) (str ''cooldown'')) NoMarkup None])
      else
        (s\<lparr>store := upsert_user (store s) u None now, draft_text := (draft_text s)(tg_id u \<mapsto> txt)\<rparr>,
         [SendMessage (tg_id u)
            ([10067] @ str '' <b>Confirm submission</b>'' @ [10] @ str ''Send this message to the owner?'')
            (InlineKeyboard [[(str ''Yes'', CB_CONFIRM_YES), (str ''No'', CB_CONFIRM_NO)]]) HTML]))"
  using assms by (simp add: user_or_admin_text_def menu_labels_def Let_def)

lemma text_of_owner:
  assumes "is_owner (tg_id u)" and "txt \<notin> set menu_labels"
  shows "user_or_admin_text u chat txt now s =
     (if \<not> truthy_int (ADMIN_WAITING_REPLY_FOR s ADMIN_ID) then
        (s, [SendMessage (tg_id u) (str ''You are the owner bruh '' @ [128529]) NoMarkup None])
      else
        (case get_request (store s) (the (ADMIN_WAITING_REPLY_FOR s ADMIN_ID)) of
           None \<Rightarrow> (clear_waiting s, [SendMessage chat (str ''Request not found.'') NoMarkup None])
         | Some req \<Rightarrow>
             (if get_ban (store s) (r_user_id req) \<noteq> None then
                (clear_waiting s, [SendMessage chat (str ''Cannot reply: user is banned.'') NoMarkup None])
              else
                (clear_waiting (s\<lparr>store := set_request_status (store s)
                                   (the (ADMIN_WAITING_REPLY_FOR s ADMIN_ID)) (str ''approved'')\<rparr>),
                 [SendMessage (r_user_id req) (aesthetic_reply txt) NoMarkup HTML,
                  SendMessage chat (t (store s) ADMIN_ID (str ''admin_reply_sent'')) NoMarkup None]))))"
  using assms by (simp add: user_or_admin_text_def menu_labels_def Let_def)

lemma text_of_menu:
  assumes "txt \<in> set menu_labels"
  shows "\<exists>d' out. user_or_admin_text u chat txt now s = (s\<lparr>store := d'\<rparr>, out) \<and>
           requests d' = requests (store s) \<and> next_request_id d' = next_request_id (store s) \<and>
           bans d' = bans (store s) \<and>
           (\<forall>a \<in> set out. \<exists>body kb pm. a = SendMessage (tg_id u) body kb pm \<and> (kb = NoMarkup \<or> pm = None))"
proof -
  have id: "s = s\<lparr>store := store s\<rparr>" by simp
  from assms have "txt = menu_send \<or> txt = menu_language \<or> txt = menu_owner \<or> txt = menu_help"
    by (simp add: menu_labels_def)
  then consider "txt = menu_send" | "txt \<noteq> menu_send" "txt = menu_language"
    | "txt \<noteq> menu_send" "txt \<noteq> menu_language" "txt = menu_owner"
    | "txt \<noteq> menu_send" "txt \<noteq> menu_language" "txt \<noteq> menu_owner" "txt = menu_help"
    by blast
  then show ?thesis
  proof cases
    case 1
    then show ?thesis by (simp add: user_or_admin_text_def Let_def) (metis id)
  next
    case 2
    then show ?thesis
      by (simp add: user_or_admin_text_def lang_cmd_def Let_def HTML_def)
         (rule exI [of _ "upsert_user (store s) u None now"], simp)
  next
    case 3
    then show ?thesis by (simp add: user_or_admin_text_def owner_cmd_def Let_def) (metis id)
  next
    case 4
    then show ?thesis by (simp add: user_or_admin_text_def help_cmd_def Let_def) (metis id)
  qed
qed

lemma confirm_of_user:
  assumes "\<not> is_owner (tg_id u)"
  shows "on_confirm_callback u data now s =
     (if get_ban (store s) (tg_id u) \<noteq> None then
        (s, [Answer None False, EditMessageText (t (store s) (tg_id u) (str ''banned'')) NoMarkup None])
      else if data = CB_CONFIRM_NO then
        (s\<lparr>draft_text := (draft_text s)(tg_id u := None)\<rparr>,
         [Answer None False, EditMessageText (t (store s) (tg_id u) (str ''write_again'')) NoMarkup None])
      else if \<not> truthy_str (draft_text s (tg_id u)) then
        (s, [Answer None False, EditMessageText (t (store s) (tg_id u) (str ''write_again'')) NoMarkup None])
      else
        (s\<lparr>store := fst (create_request (store s) now (tg_id u) (handle_of u) (the (draft_text s (tg_id u)))),
           draft_text := (draft_text s)(tg_id u := None),
           COOLDOWN_UNTIL := (COOLDOWN_UNTIL s)(tg_id u \<mapsto> now + 10)\<rparr>,
         [Answer None False,
          SendMessage (if truthy_int (ADMIN_GROUP_ID s) then the (ADMIN_GROUP_ID s) else ADMIN_ID)
            (admin_msg u (the (draft_text s (tg_id u)))
               (snd (create_request (store s) now (tg_id u) (handle_of u) (the (draft_text s (tg_id u))))))
            (admin_kb (c_request_id (snd (create_request (store s) now (tg_id u) (handle_of u) (the (draft_text s (tg_id u)))))))
            HTML,
          EditMessageText (t (fst (create_request (store s) now (tg_id u) (handle_of u) (the (draft_text s (tg_id u)))))
                             (tg_id u) (str ''sent_to_admin'')) NoMarkup None]))"
  using assms by (simp add: on_confirm_callback_def Let_def split_beta)

lemma confirm_of_owner:
  "is_owner (tg_id u) \<Longrightarrow> on_confirm_callback u data now s = (s, [Answer None False])"
  by (simp add: on_confirm_callback_def Let_def)

lemma yes_is_not_no: "CB_CONFIRM_YES \<noteq> CB_CONFIRM_NO"
  by (simp add: CB_CONFIRM_YES_def CB_CONFIRM_NO_def str_def)

lemma bob_submitted_eq:
  "bob_submitted =
     \<lparr>store = \<lparr>users = [\<lparr>user_id = 42, username = Some (str ''bob''), first_name = Some (str ''Bob''),
                          lang = str ''hinglish'', updated_at = 0\<rparr>],
                requests = [\<lparr>request_id = 1, r_user_id = 42, r_username = Some (str ''@bob''),
                             r_text = str ''hello'', status = str ''pending'', created_at = 1,
                             thread_id = Some 1, part_no = Some 1\<rparr>],
                next_request_id = 2, bans = Map.empty, settings = Map.empty\<rparr>,
      ADMIN_WAITING_REPLY_FOR = Map.empty, COOLDOWN_UNTIL = [42 \<mapsto> 11],
      draft_text = Map.empty, ADMIN_GROUP_ID = None\<rparr>"
  by (simp add: bob_submitted_def bob_def handler_defs store_defs const_defs Let_def)

section \<open>Confirmation without a draft\<close>

text \<open>
  Claim C6. A press of No never changes the store. When the user has no draft or an empty
  one, a press of Yes changes nothing at all, sends exactly what a press of No sends, and
  creates no request; for a user who is neither the owner nor banned both presses edit
  the prompt into the request to write again, and No leaves the user without a draft.
\<close>

theorem confirm_without_draft:
  "store (fst (handle now (ConfirmCallback u False) s)) = store s \<and>
   (\<not> truthy_str (draft_text s (tg_id u)) \<longrightarrow>
      fst (handle now (ConfirmCallback u True) s) = s \<and>
      requests (store (fst (handle now (ConfirmCallback u True) s))) = requests (store s) \<and>
      snd (handle now (ConfirmCallback u True) s) = snd (handle now (ConfirmCallback u False) s) \<and>
      (\<not> is_owner (tg_id u) \<and> get_ban (store s) (tg_id u) = None \<longrightarrow>
         snd (handle now (ConfirmCallback u True) s) =
           [Answer None False,
            EditMessageText (t (store s) (tg_id u) (str ''write_again'')) NoMarkup None] \<and>
         fst (handle now (ConfirmCallback u False) s) = s\<lparr>draft_text := (draft_text s)(tg_id u := None)\<rparr>))"
proof (cases "is_owner (tg_id u)")
  case True
  then show ?thesis by (simp add: confirm_of_owner)
next
  case False
  then show ?thesis by (simp add: confirm_of_user yes_is_not_no)
qed

theorem confirm_without_draft_witness:
  "\<not> truthy_str (draft_text bob_submitted (tg_id bob)) \<and> \<not> is_owner (tg_id bob) \<and>
   get_ban (store bob_submitted) (tg_id bob) = None \<and>
   handle 5 (ConfirmCallback bob True) bob_submitted =
     (bob_submitted,
      [Answer None False, EditMessageText (str ''Theek hai, dobara likh ke ek hi message me bhej.'') NoMarkup None]) \<and>
   snd (handle 5 (ConfirmCallback bob False) bob_submitted) =
      [Answer None False, EditMessageText (str ''Theek hai, dobara likh ke ek hi message me bhej.'') NoMarkup None]"
proof -
  have h: "\<not> truthy_str (draft_text bob_submitted (tg_id bob))" "\<not> is_owner (tg_id bob)"
    "get_ban (store bob_submitted) (tg_id bob) = None"
    by (simp_all add: bob_submitted_eq bob_def truthy_str_def is_owner_def ADMIN_ID_def get_ban_def)
  have t: "t (store bob_submitted) (tg_id bob) (str ''write_again'') =
            str ''Theek hai, dobara likh ke ek hi message me bhej.''"
    by (simp add: bob_submitted_eq bob_def t_def get_lang_def get_user_def HI_def EN_def str_def)
  from confirm_without_draft [of 5 bob bob_submitted] h t
  have "fst (handle 5 (ConfirmCallback bob True) bob_submitted) = bob_submitted"
    and "snd (handle 5 (ConfirmCallback bob True) bob_submitted) =
           [Answer None False, EditMessageText (str ''Theek hai, dobara likh ke ek hi message me bhej.'') NoMarkup None]"
    and "snd (handle 5 (ConfirmCallback bob True) bob_submitted) = snd (handle 5 (ConfirmCallback bob False) bob_submitted)"
    by metis+
  with h show ?thesis by (metis prod.collapse)
qed

section \<open>The reply slot\<close>

lemma get_request_Some:
  "get_request d x = Some r \<Longrightarrow> request_id r = x \<and> r \<in> set (requests d)"
  by (auto simp: get_request_def find_Some_iff)

lemma get_request_set_status:
  "get_request (set_request_status d rid st) x =
     map_option (\<lambda>r. if request_id r = rid then r\<lparr>status := st\<rparr> else r) (get_request d x)"
proof -
  have "find (\<lambda>r. request_id r = x) (map (\<lambda>r. if request_id r = rid then r\<lparr>status := st\<rparr> else r) rows)
          = map_option (\<lambda>r. if request_id r = rid then r\<lparr>status := st\<rparr> else r)
              (find (\<lambda>r. request_id r = x) rows)" for rows :: "request_row list"
    by (induction rows) auto
  then show ?thesis
    by (simp add: get_request_def set_request_status_def)
qed

lemma reply_button:
  assumes "tg_id u = ADMIN_ID" and "get_request (store s) rid = Some req"
    and "get_ban (store s) (r_user_id req) = None"
  shows "admin_buttons u (ReplyTo rid) c s =
           (s\<lparr>ADMIN_WAITING_REPLY_FOR := (ADMIN_WAITING_REPLY_FOR s)(ADMIN_ID \<mapsto> rid)\<rparr>,
            [Answer None False,
             SendMessage ADMIN_ID (t (store s) ADMIN_ID (str ''admin_reply_prompt'')) NoMarkup None,
             EditMessageText (text_html c @ reply_stamp c) NoMarkup HTML])"
  using assms by (simp add: admin_buttons_def Let_def)

lemma waiting_step:
  "ADMIN_WAITING_REPLY_FOR (fst (handle now e s)) = ADMIN_WAITING_REPLY_FOR s \<or>
   ADMIN_WAITING_REPLY_FOR (fst (handle now e s)) = (ADMIN_WAITING_REPLY_FOR s)(ADMIN_ID := None) \<or>
   (\<exists>rid. ADMIN_WAITING_REPLY_FOR (fst (handle now e s)) = (ADMIN_WAITING_REPLY_FOR s)(ADMIN_ID \<mapsto> rid))"
proof (cases e)
  case (TextMessage u chat body)
  show ?thesis
  proof (cases "body \<in> set menu_labels")
    case True
    from text_of_menu [OF True, of u chat now s] show ?thesis
      unfolding TextMessage by auto
  next
    case False
    then show ?thesis
      unfolding TextMessage
      by (cases "is_owner (tg_id u)")
         (auto simp: text_of_owner text_of_user clear_waiting_def split: option.splits)
  qed
next
  case (ConfirmCallback u yes)
  then show ?thesis
    by (cases "is_owner (tg_id u)") (auto simp: confirm_of_owner confirm_of_user)
next
  case (AdminCallback u data c)
  then show ?thesis
    by (auto simp: admin_buttons_def Let_def split: payload.splits member_lookup.splits option.splits)
qed (auto simp: start_def lang_cmd_def on_lang_callback_def clean_callback_def ban_cmd_def
       unban_cmd_def Let_def split: cmd_args.splits option.splits)

lemma reachable_waiting: "reachable s \<Longrightarrow> dom (ADMIN_WAITING_REPLY_FOR s) \<subseteq> {ADMIN_ID}"
proof (induction rule: reachable.induct)
  case (reachable_init gid)
  show ?case by (simp add: init_state_def)
next
  case (reachable_step s now e)
  with waiting_step [of now e s] show ?case by (auto simp: domIff subset_iff split: if_splits)
qed

text \<open>
  Claim C5. In a reachable state let the owner press Reply on request \<open>a\<close> and then on
  request \<open>b\<close>, two different requests whose authors are not banned, and then send a text
  that is not a menu label. After the second press the slot holds \<open>b\<close> and nothing else.
  The text is delivered to the author of \<open>b\<close> only, \<open>b\<close> becomes approved, every other
  request (so \<open>a\<close>, which stays pending) is as it was, and the slot is empty afterwards.
\<close>

theorem reply_slot_single_valued:
  assumes "reachable s" and "tg_id owner = ADMIN_ID"
    and "get_request (store s) a = Some ra" and "get_request (store s) b = Some rb" and "a \<noteq> b"
    and "get_ban (store s) (r_user_id ra) = None" and "get_ban (store s) (r_user_id rb) = None"
    and "status ra = str ''pending''" and "txt \<notin> set menu_labels"
  shows "let s1 = fst (handle n1 (AdminCallback owner (ReplyTo a) c1) s);
             s2 = fst (handle n2 (AdminCallback owner (ReplyTo b) c2) s1);
             s3 = fst (handle n3 (TextMessage owner chat txt) s2)
         in ADMIN_WAITING_REPLY_FOR s1 = [ADMIN_ID \<mapsto> a] \<and>
            ADMIN_WAITING_REPLY_FOR s2 = [ADMIN_ID \<mapsto> b] \<and>
            ADMIN_WAITING_REPLY_FOR s3 = Map.empty \<and>
            store s2 = store s \<and>
            snd (handle n3 (TextMessage owner chat txt) s2) =
              [SendMessage (r_user_id rb) (aesthetic_reply txt) NoMarkup HTML,
               SendMessage chat (t (store s) ADMIN_ID (str ''admin_reply_sent'')) NoMarkup None] \<and>
            get_request (store s3) b = Some (rb\<lparr>status := str ''approved''\<rparr>) \<and>
            get_request (store s3) a = Some ra \<and> status ra = str ''pending'' \<and>
            (\<forall>x. x \<noteq> b \<longrightarrow> get_request (store s3) x = get_request (store s) x)"
proof -
  let ?w = "ADMIN_WAITING_REPLY_FOR s"
  let ?s1 = "s\<lparr>ADMIN_WAITING_REPLY_FOR := ?w(ADMIN_ID \<mapsto> a)\<rparr>"
  let ?s2 = "s\<lparr>ADMIN_WAITING_REPLY_FOR := ?w(ADMIN_ID \<mapsto> b)\<rparr>"
  let ?s3 = "s\<lparr>store := set_request_status (store s) b (str ''approved''),
                ADMIN_WAITING_REPLY_FOR := ?w(ADMIN_ID := None)\<rparr>"
  have dom: "dom ?w \<subseteq> {ADMIN_ID}" using assms(1) by (rule reachable_waiting)
  have w1: "?w(ADMIN_ID \<mapsto> x) = [ADMIN_ID \<mapsto> x]" for x
    using dom by (auto simp: fun_eq_iff domIff subset_iff)
  have w0: "?w(ADMIN_ID := None) = Map.empty"
    using dom by (auto simp: fun_eq_iff domIff subset_iff)
  have "store_ok (store s)" using assms(1) by (rule reachable_store_ok)
  with get_request_Some [OF assms(4)] have b0: "b \<noteq> 0" by (auto simp: store_ok_def)
  have ida: "request_id ra = a" and idb: "request_id rb = b"
    using get_request_Some [OF assms(3)] get_request_Some [OF assms(4)] by simp_all
  have s1: "fst (handle n1 (AdminCallback owner (ReplyTo a) c1) s) = ?s1"
    using reply_button [OF assms(2,3,6)] by simp
  have s2: "fst (handle n2 (AdminCallback owner (ReplyTo b) c2) ?s1) = ?s2"
    using reply_button [of owner ?s1 b rb c2] assms(2,4,7) by simp
  have own: "is_owner (tg_id owner)" using assms(2) by (simp add: is_owner_def)
  have h3: "handle n3 (TextMessage owner chat txt) ?s2 =
              (?s3, [SendMessage (r_user_id rb) (aesthetic_reply txt) NoMarkup HTML,
                     SendMessage chat (t (store s) ADMIN_ID (str ''admin_reply_sent'')) NoMarkup None])"
    using assms(4,7) b0 by (simp add: text_of_owner [OF own assms(9)] truthy_int_def clear_waiting_def)
  have ga: "get_request (store ?s3) a = Some ra"
    using assms(3,5) ida by (simp add: get_request_set_status)
  have gb: "get_request (store ?s3) b = Some (rb\<lparr>status := str ''approved''\<rparr>)"
    using assms(4) idb by (simp add: get_request_set_status)
  have gx: "get_request (store ?s3) x = get_request (store s) x" if "x \<noteq> b" for x
  proof (cases "get_request (store s) x")
    case None
    then show ?thesis by (simp add: get_request_set_status)
  next
    case (Some r)
    with get_request_Some [OF Some] that show ?thesis by (simp add: get_request_set_status)
  qed
  show ?thesis
    unfolding Let_def s1 s2 h3 using ga gb gx assms(8) by (simp add: w1 w0)
qed

lemma two_requests_eq:
  "two_requests =
     \<lparr>store = \<lparr>users = [\<lparr>user_id = 42, username = Some (str ''bob''), first_name = Some (str ''Bob''),
                          lang = str ''hinglish'', updated_at = 0\<rparr>,
                         \<lparr>user_id = 43, username = None, first_name = Some (str ''Carol''),
                          lang = str ''hinglish'', updated_at = 2\<rparr>],
                requests = [bob_request, carol_request],
                next_request_id = 3, bans = Map.empty, settings = Map.empty\<rparr>,
      ADMIN_WAITING_REPLY_FOR = Map.empty, COOLDOWN_UNTIL = [42 \<mapsto> 11, 43 \<mapsto> 13],
      draft_text = Map.empty, ADMIN_GROUP_ID = None\<rparr>"
  by (simp add: two_requests_def bob_submitted_eq carol_def bob_request_def carol_request_def
        handler_defs store_defs const_defs Let_def fun_eq_iff)

lemma reachable_bob_submitted: "reachable bob_submitted"
  unfolding bob_submitted_def by (intro reachable.intros)

lemma reachable_two_requests: "reachable two_requests"
  unfolding two_requests_def by (intro reachable.intros reachable_bob_submitted)

theorem reply_slot_single_valued_witness:
  "reachable two_requests \<and> tg_id the_owner = ADMIN_ID \<and>
   get_request (store two_requests) 1 = Some bob_request \<and>
   get_request (store two_requests) 2 = Some carol_request \<and> (1::int) \<noteq> 2 \<and>
   get_ban (store two_requests) (r_user_id bob_request) = None \<and>
   get_ban (store two_requests) (r_user_id carol_request) = None \<and>
   status bob_request = str ''pending'' \<and> str ''Hi there'' \<notin> set menu_labels \<and>
   (let s1 = fst (handle 4 (AdminCallback the_owner (ReplyTo 1) some_button) two_requests);
        s2 = fst (handle 5 (AdminCallback the_owner (ReplyTo 2) some_button) s1);
        s3 = fst (handle 6 (TextMessage the_owner ADMIN_ID (str ''Hi there'')) s2)
    in ADMIN_WAITING_REPLY_FOR s2 = [ADMIN_ID \<mapsto> 2] \<and> ADMIN_WAITING_REPLY_FOR s3 = Map.empty \<and>
       get_request (store s3) 2 = Some (carol_request\<lparr>status := str ''approved''\<rparr>) \<and>
       get_request (store s3) 1 = Some bob_request)"
proof -
  have h: "tg_id the_owner = ADMIN_ID"
    "get_request (store two_requests) 1 = Some bob_request"
    "get_request (store two_requests) 2 = Some carol_request" "(1::int) \<noteq> 2"
    "get_ban (store two_requests) (r_user_id bob_request) = None"
    "get_ban (store two_requests) (r_user_id carol_request) = None"
    "status bob_request = str ''pending''" "str ''Hi there'' \<notin> set menu_labels"
    by (simp_all add: two_requests_eq the_owner_def get_request_def get_ban_def bob_request_def
          carol_request_def menu_labels_def menu_send_def menu_language_def menu_owner_def
          menu_help_def str_def)
  from reply_slot_single_valued [OF reachable_two_requests h, of 4 some_button 5 some_button 6 ADMIN_ID]
    reachable_two_requests h
  show ?thesis by (simp add: Let_def)
qed

section \<open>The status of a request\<close>

lemma requests_clear_waiting [simp]: "requests (store (clear_waiting s)) = requests (store s)"
  by (simp add: clear_waiting_def)

lemma handle_requests_effect:
  "requests_effect now e s (requests (store (fst (handle now e s))))"
proof (cases e)
  case (StartCommand u)
  then show ?thesis by (simp add: requests_effect_def start_def Let_def)
next
  case (LangCommand u)
  then show ?thesis by (simp add: requests_effect_def lang_cmd_def Let_def)
next
  case (LangCallback u code)
  then show ?thesis by (simp add: requests_effect_def on_lang_callback_def Let_def)
next
  case (TextMessage u chat body)
  show ?thesis
  proof (cases "body \<in> set menu_labels")
    case True
    from text_of_menu [OF True, of u chat now s] show ?thesis
      unfolding TextMessage by (auto simp: requests_effect_def)
  next
    case False
    show ?thesis
    proof (cases "is_owner (tg_id u)")
      case True
      then show ?thesis
        unfolding TextMessage
        by (auto simp: requests_effect_def text_of_owner [OF True False] truthy_int_def
              clear_waiting_def split: option.splits)
    next
      case no: False
      then show ?thesis
        unfolding TextMessage by (simp add: requests_effect_def text_of_user [OF no False])
    qed
  qed
next
  case (ConfirmCallback u yes)
  show ?thesis
  proof (cases "is_owner (tg_id u)")
    case True
    then show ?thesis unfolding ConfirmCallback by (simp add: requests_effect_def confirm_of_owner)
  next
    case False
    then show ?thesis
      unfolding ConfirmCallback
      by (auto simp: requests_effect_def confirm_of_user requests_create yes_is_not_no)
  qed
next
  case (CleanCallback u yes)
  then show ?thesis
    by (auto simp: requests_effect_def clean_callback_def clean_requests_def CB_CLEAN_YES_def
          CB_CLEAN_NO_def str_def)
next
  case (BanCommand u args)
  then show ?thesis
    by (auto simp: requests_effect_def ban_cmd_def Let_def split: cmd_args.splits option.splits)
next
  case (UnbanCommand u args)
  then show ?thesis
    by (auto simp: requests_effect_def unban_cmd_def split: cmd_args.splits option.splits)
next
  case (AdminCallback u data c)
  then show ?thesis
    by (auto simp: requests_effect_def admin_buttons_def Let_def
             split: payload.splits member_lookup.splits option.splits)
qed

lemma t_users: "users d' = users d \<Longrightarrow> t d' uid key = t d uid key"
  by (simp add: t_def get_lang_def get_user_def)

lemma set_request_status_twice:
  "set_request_status (set_request_status d rid st) rid st = set_request_status d rid st"
  by (simp add: set_request_status_def o_def if_distrib [of "\<lambda>r. r\<lparr>status := st\<rparr>"]
        if_distrib [of request_id] cong: if_cong)

lemma reject_button:
  assumes "tg_id u = ADMIN_ID"
  shows "admin_buttons u (Reject rid) c s =
     (case get_request (store s) rid of
        None \<Rightarrow> (s, [Answer None False, SendMessage ADMIN_ID (str ''Request not found.'') NoMarkup None])
      | Some req \<Rightarrow>
          (s\<lparr>store := set_request_status (store s) rid (str ''rejected'')\<rparr>,
           [Answer None False] @
           (if get_ban (store s) (r_user_id req) = None
            then [SendMessage (r_user_id req) reject_msg NoMarkup None] else []) @
           [SendMessage ADMIN_ID (t (store s) ADMIN_ID (str ''admin_rejected'')) NoMarkup None,
            EditMessageText (text_html c @ reject_stamp c) NoMarkup HTML]))"
  using assms by (simp add: admin_buttons_def Let_def)

lemma reject_twice:
  assumes "tg_id u = ADMIN_ID"
  shows "handle now' (AdminCallback u (Reject rid) c) (fst (handle now (AdminCallback u (Reject rid) c) s))
           = handle now (AdminCallback u (Reject rid) c) s"
proof (cases "get_request (store s) rid")
  case None
  then show ?thesis by (simp add: reject_button [OF assms])
next
  case (Some req)
  from get_request_Some [OF Some] have "request_id req = rid" by simp
  with Some show ?thesis
    by (simp add: reject_button [OF assms] get_request_set_status set_request_status_twice
          t_users [of "set_request_status (store s) rid (str ''rejected'')" "store s"])
qed

lemma row_after_set_status:
  assumes "r \<in> set (requests d)"
  shows "(if request_id r = rid then r\<lparr>status := st\<rparr> else r) \<in> set (requests (set_request_status d rid st))"
  using assms by (auto simp: set_request_status_def)

text \<open>
  Claim C3, as amended. Whatever the update, a request of the store is afterwards either
  deleted with all others by the owner's clean, or still there and equal to what it was
  but for its status; and its status is what it was, or approved because the update is the
  owner's text while the slot holds this request, or rejected because the update is the
  owner's Reject of this request. The stored status is not looked at: Reject sets an
  existing request to rejected whatever it was, and a second Reject gives the state and
  the notifications of the first once more.
\<close>

theorem status_written_by_reply_and_reject_only:
  "(\<forall>r \<in> set (requests (store s)).
      (requests (store (fst (handle now e s))) = [] \<and> (\<exists>u. e = CleanCallback u True \<and> is_owner (tg_id u))) \<or>
      (\<exists>r' \<in> set (requests (store (fst (handle now e s)))).
          r' = r\<lparr>status := status r'\<rparr> \<and>
          (status r' = status r \<or>
           status r' = str ''approved'' \<and>
             (\<exists>u chat body. e = TextMessage u chat body \<and> is_owner (tg_id u) \<and>
                ADMIN_WAITING_REPLY_FOR s ADMIN_ID = Some (request_id r)) \<or>
           status r' = str ''rejected'' \<and>
             (\<exists>u c. e = AdminCallback u (Reject (request_id r)) c \<and> tg_id u = ADMIN_ID)))) \<and>
   (tg_id o' = ADMIN_ID \<longrightarrow>
      (\<forall>req. get_request (store s) rid = Some req \<longrightarrow>
         get_request (store (fst (handle now (AdminCallback o' (Reject rid) c) s))) rid =
           Some (req\<lparr>status := str ''rejected''\<rparr>)) \<and>
      handle now' (AdminCallback o' (Reject rid) c) (fst (handle now (AdminCallback o' (Reject rid) c) s))
        = handle now (AdminCallback o' (Reject rid) c) s)"
proof (intro conjI ballI impI allI)
  fix r assume r: "r \<in> set (requests (store s))"
  let ?rows = "requests (store (fst (handle now e s)))"
  have "requests_effect now e s ?rows" by (rule handle_requests_effect)
  then consider
      (same) "?rows = requests (store s)"
    | (approve) u chat body rid where "e = TextMessage u chat body" "is_owner (tg_id u)"
        "ADMIN_WAITING_REPLY_FOR s ADMIN_ID = Some rid"
        "?rows = requests (set_request_status (store s) rid (str ''approved''))"
    | (reject) u rid c where "e = AdminCallback u (Reject rid) c" "tg_id u = ADMIN_ID"
        "?rows = requests (set_request_status (store s) rid (str ''rejected''))"
    | (create) new where "?rows = requests (store s) @ [new]"
    | (clean) u where "e = CleanCallback u True" "is_owner (tg_id u)" "?rows = []"
    unfolding requests_effect_def by blast
  then show "(?rows = [] \<and> (\<exists>u. e = CleanCallback u True \<and> is_owner (tg_id u))) \<or>
      (\<exists>r' \<in> set ?rows.
          r' = r\<lparr>status := status r'\<rparr> \<and>
          (status r' = status r \<or>
           status r' = str ''approved'' \<and>
             (\<exists>u chat body. e = TextMessage u chat body \<and> is_owner (tg_id u) \<and>
                ADMIN_WAITING_REPLY_FOR s ADMIN_ID = Some (request_id r)) \<or>
           status r' = str ''rejected'' \<and>
             (\<exists>u c. e = AdminCallback u (Reject (request_id r)) c \<and> tg_id u = ADMIN_ID)))"
  proof cases
    case same
    with r show ?thesis by (intro disjI2 bexI [of _ r]) simp_all
  next
    case (approve u chat body rid)
    let ?r' = "if request_id r = rid then r\<lparr>status := str ''approved''\<rparr> else r"
    have "?r' \<in> set ?rows" unfolding approve(4) using r by (rule row_after_set_status)
    then show ?thesis using approve(1-3) by (intro disjI2 bexI [of _ ?r']) auto
  next
    case (reject u rid c)
    let ?r' = "if request_id r = rid then r\<lparr>status := str ''rejected''\<rparr> else r"
    have "?r' \<in> set ?rows" unfolding reject(3) using r by (rule row_after_set_status)
    then show ?thesis using reject(1,2) by (intro disjI2 bexI [of _ ?r']) auto
  next
    case (create new)
    with r show ?thesis by (intro disjI2 bexI [of _ r]) simp_all
  next
    case (clean u)
    then show ?thesis by blast
  qed
next
  fix req assume o': "tg_id o' = ADMIN_ID" and req: "get_request (store s) rid = Some req"
  from get_request_Some [OF req] have "request_id req = rid" by simp
  with req show "get_request (store (fst (handle now (AdminCallback o' (Reject rid) c) s))) rid =
           Some (req\<lparr>status := str ''rejected''\<rparr>)"
    by (simp add: reject_button [OF o'] get_request_set_status)
next
  assume "tg_id o' = ADMIN_ID"
  then show "handle now' (AdminCallback o' (Reject rid) c) (fst (handle now (AdminCallback o' (Reject rid) c) s))
        = handle now (AdminCallback o' (Reject rid) c) s"
    by (rule reject_twice)
qed

lemma bob_approved_eq:
  "bob_approved =
     \<lparr>store = \<lparr>users = [\<lparr>user_id = 42, username = Some (str ''bob''), first_name = Some (str ''Bob''),
                          lang = str ''hinglish'', updated_at = 0\<rparr>],
                requests = [bob_request\<lparr>status := str ''approved''\<rparr>],
                next_request_id = 2, bans = Map.empty, settings = Map.empty\<rparr>,
      ADMIN_WAITING_REPLY_FOR = Map.empty, COOLDOWN_UNTIL = [42 \<mapsto> 11],
      draft_text = Map.empty, ADMIN_GROUP_ID = None\<rparr>"
  by (simp add: bob_approved_def bob_submitted_eq the_owner_def bob_request_def
        handler_defs store_defs const_defs Let_def fun_eq_iff)

text \<open>
  Claim C3 as stated fails: a request that the owner has approved is set to rejected by a
  later press of Reject.
\<close>

theorem resolved_request_changes_status_counterexample:
  "map status (requests (store bob_approved)) = [str ''approved''] \<and>
   map status (requests (store (fst (handle 9 (AdminCallback the_owner (Reject 1) some_button) bob_approved))))
     = [str ''rejected'']"
  by (simp add: bob_approved_eq bob_request_def the_owner_def admin_buttons_def get_request_def
        set_request_status_def Let_def)

theorem status_written_by_reply_and_reject_only_witness:
  "bob_request\<lparr>status := str ''approved''\<rparr> \<in> set (requests (store bob_approved)) \<and>
   tg_id the_owner = ADMIN_ID \<and>
   get_request (store bob_approved) 1 = Some (bob_request\<lparr>status := str ''approved''\<rparr>) \<and>
   get_request (store (fst (handle 9 (AdminCallback the_owner (Reject 1) some_button) bob_approved))) 1 =
     Some (bob_request\<lparr>status := str ''rejected''\<rparr>) \<and>
   handle 10 (AdminCallback the_owner (Reject 1) some_button)
     (fst (handle 9 (AdminCallback the_owner (Reject 1) some_button) bob_approved))
     = handle 9 (AdminCallback the_owner (Reject 1) some_button) bob_approved"
proof -
  have h: "bob_request\<lparr>status := str ''approved''\<rparr> \<in> set (requests (store bob_approved))"
    "tg_id the_owner = ADMIN_ID"
    "get_request (store bob_approved) 1 = Some (bob_request\<lparr>status := str ''approved''\<rparr>)"
    by (simp_all add: bob_approved_eq the_owner_def get_request_def bob_request_def)
  from status_written_by_reply_and_reject_only
         [of bob_approved 9 "AdminCallback the_owner (Reject 1) some_button" the_owner 1 some_button 10] h
  show ?thesis by simp
qed

section \<open>The ban gate\<close>

lemma bans_clear_waiting [simp]: "bans (store (clear_waiting s)) = bans (store s)"
  by (simp add: clear_waiting_def)

lemma bans_step:
  "bans (store (fst (handle now e s))) = bans (store s) \<or>
   (\<exists>u x rest rsn. e = BanCommand u (Args (Some x) rest) \<and> is_owner (tg_id u) \<and>
      bans (store (fst (handle now e s))) = (bans (store s))(x \<mapsto> \<lparr>reason = Some rsn, banned_at = now\<rparr>)) \<or>
   (\<exists>u x rest. e = UnbanCommand u (Args (Some x) rest) \<and> is_owner (tg_id u) \<and>
      bans (store (fst (handle now e s))) = (bans (store s))(x := None))"
proof (cases e)
  case (TextMessage u chat body)
  show ?thesis
  proof (cases "body \<in> set menu_labels")
    case True
    from text_of_menu [OF True, of u chat now s] show ?thesis
      unfolding TextMessage by auto
  next
    case False
    then show ?thesis
      unfolding TextMessage
      by (cases "is_owner (tg_id u)")
         (auto simp: text_of_owner text_of_user split: option.splits)
  qed
next
  case (ConfirmCallback u yes)
  then show ?thesis
    by (cases "is_owner (tg_id u)") (auto simp: confirm_of_owner confirm_of_user)
next
  case (AdminCallback u data c)
  then show ?thesis
    by (auto simp: admin_buttons_def Let_def set_setting_def
             split: payload.splits member_lookup.splits option.splits)
next
  case (BanCommand u args)
  then show ?thesis
    by (auto simp: ban_cmd_def ban_user_def Let_def split: cmd_args.splits option.splits)
next
  case (UnbanCommand u args)
  then show ?thesis
    by (auto simp: unban_cmd_def unban_user_def split: cmd_args.splits option.splits)
qed (auto simp: start_def lang_cmd_def on_lang_callback_def clean_callback_def clean_requests_def Let_def)

lemma no_request_for_banned:
  assumes "get_ban (store s) uid \<noteq> None"
    and "r' \<in> set (requests (store (fst (handle now e s))))" and "r_user_id r' = uid"
  shows "\<exists>r \<in> set (requests (store s)). r' = r\<lparr>status := status r'\<rparr>"
proof -
  let ?rows = "requests (store (fst (handle now e s)))"
  have "requests_effect now e s ?rows" by (rule handle_requests_effect)
  then consider
      (same) "?rows = requests (store s)"
    | (status) rid st where "?rows = requests (set_request_status (store s) rid st)"
    | (create) u :: tg_user and new where "get_ban (store s) (tg_id u) = None" "r_user_id new = tg_id u"
        "?rows = requests (store s) @ [new]"
    | (clean) "?rows = []"
    unfolding requests_effect_def by blast
  then show ?thesis
  proof cases
    case same
    with assms(2) show ?thesis by (intro bexI [of _ r']) simp_all
  next
    case (status rid st)
    with assms(2) obtain r where "r \<in> set (requests (store s))"
      and "r' = (if request_id r = rid then r\<lparr>status := st\<rparr> else r)"
      by (auto simp: set_request_status_def)
    then show ?thesis by (intro bexI [of _ r]) (auto split: if_splits)
  next
    case (create u new)
    with assms have "r' \<in> set (requests (store s))" by auto
    then show ?thesis by (intro bexI [of _ r']) simp_all
  next
    case clean
    with assms(2) show ?thesis by simp
  qed
qed

text \<open>
  Claim C2, as amended. While a user other than the owner has a Ban record:
  every text of this user that is not one of the four menu labels is answered with the
  banned notice and changes nothing; every press of Yes or No by this user turns the
  prompt into the banned notice and changes nothing; a menu label is answered as for
  every user, without a confirmation prompt and without touching requests or drafts;
  the owner's reply to a request of this user is not delivered, Reply on such a request
  does not fill the slot, and Reject on it sends no notice to the user; no update adds a
  request of this user; and the Ban record stays until the owner's unban command for
  this user.
\<close>

theorem ban_gate:
  assumes "get_ban (store s) uid \<noteq> None" and "\<not> is_owner uid"
  shows "(\<forall>u chat body. tg_id u = uid \<and> body \<notin> set menu_labels \<longrightarrow>
            handle now (TextMessage u chat body) s =
              (s, [SendMessage uid (t (store s) uid (str ''banned'')) NoMarkup None])) \<and>
         (\<forall>u yes. tg_id u = uid \<longrightarrow>
            handle now (ConfirmCallback u yes) s =
              (s, [Answer None False, EditMessageText (t (store s) uid (str ''banned'')) NoMarkup None])) \<and>
         (\<forall>u chat body. tg_id u = uid \<and> body \<in> set menu_labels \<longrightarrow>
            requests (store (fst (handle now (TextMessage u chat body) s))) = requests (store s) \<and>
            draft_text (fst (handle now (TextMessage u chat body) s)) = draft_text s \<and>
            (\<forall>a \<in> set (snd (handle now (TextMessage u chat body) s)).
               \<exists>b kb pm. a = SendMessage uid b kb pm \<and> (kb = NoMarkup \<or> pm = None))) \<and>
         (\<forall>o' chat body rid req.
            tg_id o' = ADMIN_ID \<and> body \<notin> set menu_labels \<and>
            ADMIN_WAITING_REPLY_FOR s ADMIN_ID = Some rid \<and> rid \<noteq> 0 \<and>
            get_request (store s) rid = Some req \<and> r_user_id req = uid \<longrightarrow>
            handle now (TextMessage o' chat body) s =
              (clear_waiting s, [SendMessage chat (str ''Cannot reply: user is banned.'') NoMarkup None])) \<and>
         (\<forall>o' rid req c.
            tg_id o' = ADMIN_ID \<and> get_request (store s) rid = Some req \<and> r_user_id req = uid \<longrightarrow>
            handle now (AdminCallback o' (ReplyTo rid) c) s =
              (s, [Answer None False,
                   SendMessage ADMIN_ID (str ''Cannot reply: user is banned.'') NoMarkup None]) \<and>
            snd (handle now (AdminCallback o' (Reject rid) c) s) =
              [Answer None False,
               SendMessage ADMIN_ID (t (store s) ADMIN_ID (str ''admin_rejected'')) NoMarkup None,
               EditMessageText (text_html c @ reject_stamp c) NoMarkup HTML]) \<and>
         (\<forall>e. \<forall>r' \<in> set (requests (store (fst (handle now e s)))).
            r_user_id r' = uid \<longrightarrow> (\<exists>r \<in> set (requests (store s)). r' = r\<lparr>status := status r'\<rparr>)) \<and>
         (\<forall>e. get_ban (store (fst (handle now e s))) uid \<noteq> None \<or>
              (\<exists>u rest. e = UnbanCommand u (Args (Some uid) rest) \<and> is_owner (tg_id u)))"
proof (intro conjI allI impI ballI)
  fix u :: tg_user and chat body assume "tg_id u = uid \<and> body \<notin> set menu_labels"
  with assms show "handle now (TextMessage u chat body) s =
              (s, [SendMessage uid (t (store s) uid (str ''banned'')) NoMarkup None])"
    by (simp add: text_of_user)
next
  fix u :: tg_user and yes assume "tg_id u = uid"
  with assms show "handle now (ConfirmCallback u yes) s =
              (s, [Answer None False, EditMessageText (t (store s) uid (str ''banned'')) NoMarkup None])"
    by (simp add: confirm_of_user)
next
  fix u :: tg_user and chat body assume a: "tg_id u = uid \<and> body \<in> set menu_labels"
  then have m: "body \<in> set menu_labels" by simp
  from text_of_menu [OF m, of u chat now s] a
  show "requests (store (fst (handle now (TextMessage u chat body) s))) = requests (store s)"
    and "draft_text (fst (handle now (TextMessage u chat body) s)) = draft_text s"
    by auto
  fix a' assume "a' \<in> set (snd (handle now (TextMessage u chat body) s))"
  with text_of_menu [OF m, of u chat now s] a
  show "\<exists>b kb pm. a' = SendMessage uid b kb pm \<and> (kb = NoMarkup \<or> pm = None)"
    by auto
next
  fix o' :: tg_user and chat body rid req
  assume a: "tg_id o' = ADMIN_ID \<and> body \<notin> set menu_labels \<and>
            ADMIN_WAITING_REPLY_FOR s ADMIN_ID = Some rid \<and> rid \<noteq> 0 \<and>
            get_request (store s) rid = Some req \<and> r_user_id req = uid"
  then have "is_owner (tg_id o')" "body \<notin> set menu_labels" by (simp_all add: is_owner_def)
  from text_of_owner [OF this] a assms(1)
  show "handle now (TextMessage o' chat body) s =
              (clear_waiting s, [SendMessage chat (str ''Cannot reply: user is banned.'') NoMarkup None])"
    by (simp add: truthy_int_def)
next
  fix o' :: tg_user and rid req c
  assume a: "tg_id o' = ADMIN_ID \<and> get_request (store s) rid = Some req \<and> r_user_id req = uid"
  with assms(1) show "handle now (AdminCallback o' (ReplyTo rid) c) s =
              (s, [Answer None False,
                   SendMessage ADMIN_ID (str ''Cannot reply: user is banned.'') NoMarkup None])"
    by (simp add: admin_buttons_def Let_def)
  from a assms(1) show "snd (handle now (AdminCallback o' (Reject rid) c) s) =
              [Answer None False,
               SendMessage ADMIN_ID (t (store s) ADMIN_ID (str ''admin_rejected'')) NoMarkup None,
               EditMessageText (text_html c @ reject_stamp c) NoMarkup HTML]"
    by (simp add: reject_button)
next
  fix e r' assume "r' \<in> set (requests (store (fst (handle now e s))))" "r_user_id r' = uid"
  with assms(1) show "\<exists>r \<in> set (requests (store s)). r' = r\<lparr>status := status r'\<rparr>"
    by (rule no_request_for_banned)
next
  fix e
  from bans_step [of now e s] assms(1)
  show "get_ban (store (fst (handle now e s))) uid \<noteq> None \<or>
              (\<exists>u rest. e = UnbanCommand u (Args (Some uid) rest) \<and> is_owner (tg_id u))"
    by (auto simp: get_ban_def split: if_splits)
qed

lemma bob_banned_eq:
  "bob_banned =
     \<lparr>store = \<lparr>users = [\<lparr>user_id = 42, username = Some (str ''bob''), first_name = Some (str ''Bob''),
                          lang = str ''hinglish'', updated_at = 0\<rparr>],
                requests = [bob_request],
                next_request_id = 2,
                bans = [42 \<mapsto> \<lparr>reason = Some (str ''spam''), banned_at = 7\<rparr>],
                settings = Map.empty\<rparr>,
      ADMIN_WAITING_REPLY_FOR = Map.empty, COOLDOWN_UNTIL = [42 \<mapsto> 11],
      draft_text = Map.empty, ADMIN_GROUP_ID = None\<rparr>"
  by (simp add: bob_banned_def bob_submitted_eq the_owner_def bob_request_def
        handler_defs store_defs const_defs Let_def fun_eq_iff)

lemma banned_notice_hinglish:
  "t (store bob_banned) 42 (str ''banned'') = str ''You are banned from using this bot.''"
  by (simp add: bob_banned_eq t_def get_lang_def get_user_def HI_def EN_def str_def)

text \<open>
  Claim C2 as stated fails: the text of a menu button sent by a banned user is answered as
  for every user, and for the language button the user's row is written.
\<close>

theorem banned_user_menu_text_counterexample:
  "get_ban (store bob_banned) 42 = Some \<lparr>reason = Some (str ''spam''), banned_at = 7\<rparr> \<and>
   snd (handle 8 (TextMessage bob 42 menu_send) bob_banned) =
     [SendMessage 42 (str ''Write everything in one message and send it.'') NoMarkup None] \<and>
   map updated_at (users (store bob_banned)) = [0] \<and>
   map updated_at (users (store (fst (handle 8 (TextMessage bob 42 menu_language) bob_banned)))) = [8]"
  by (simp add: bob_banned_eq bob_def user_or_admin_text_def lang_cmd_def upsert_user_def
        get_user_def get_ban_def menu_send_def menu_language_def str_def Let_def)

theorem ban_gate_witness:
  "get_ban (store bob_banned) 42 \<noteq> None \<and> \<not> is_owner 42 \<and> tg_id bob = 42 \<and>
   str ''please'' \<notin> set menu_labels \<and>
   handle 8 (TextMessage bob 42 (str ''please'')) bob_banned =
     (bob_banned, [SendMessage 42 (str ''You are banned from using this bot.'') NoMarkup None]) \<and>
   handle 9 (ConfirmCallback bob True) bob_banned =
     (bob_banned, [Answer None False,
                   EditMessageText (str ''You are banned from using this bot.'') NoMarkup None])"
proof -
  have h: "get_ban (store bob_banned) 42 \<noteq> None" "\<not> is_owner 42"
    by (simp_all add: bob_banned_eq get_ban_def is_owner_def ADMIN_ID_def)
  have b: "tg_id bob = 42" "str ''please'' \<notin> set menu_labels"
    by (simp_all add: bob_def menu_labels_def menu_send_def menu_language_def menu_owner_def
          menu_help_def str_def)
  from ban_gate [OF h, of 8, THEN conjunct1, rule_format, of bob "str ''please''" 42] b
  have "handle 8 (TextMessage bob 42 (str ''please'')) bob_banned =
     (bob_banned, [SendMessage 42 (t (store bob_banned) 42 (str ''banned'')) NoMarkup None])"
    by simp
  moreover from ban_gate [OF h, of 9, THEN conjunct2, THEN conjunct1, rule_format, of bob True] b
  have "handle 9 (ConfirmCallback bob True) bob_banned =
     (bob_banned, [Answer None False, EditMessageText (t (store bob_banned) 42 (str ''banned'')) NoMarkup None])"
    by simp
  ultimately show ?thesis using h b by (simp add: banned_notice_hinglish)
qed

section \<open>The cooldown\<close>

lemma session_clear_waiting [simp]:
  "COOLDOWN_UNTIL (clear_waiting s) = COOLDOWN_UNTIL s" "draft_text (clear_waiting s) = draft_text s"
  by (simp_all add: clear_waiting_def)

lemma handle_session_effect: "session_effect now e s (fst (handle now e s))"
proof (cases e)
  case (TextMessage u chat body)
  show ?thesis
  proof (cases "body \<in> set menu_labels")
    case True
    from text_of_menu [OF True, of u chat now s] show ?thesis
      unfolding TextMessage by (auto simp: session_effect_def)
  next
    case False
    show ?thesis
    proof (cases "is_owner (tg_id u)")
      case True
      then show ?thesis
        unfolding TextMessage
        by (auto simp: session_effect_def text_of_owner [OF True False] split: option.splits)
    next
      case no: False
      then show ?thesis
        unfolding TextMessage by (auto simp: session_effect_def text_of_user [OF no False])
    qed
  qed
next
  case (ConfirmCallback u yes)
  show ?thesis
  proof (cases "is_owner (tg_id u)")
    case True
    then show ?thesis unfolding ConfirmCallback by (simp add: session_effect_def confirm_of_owner)
  next
    case False
    then show ?thesis
      unfolding ConfirmCallback
      by (auto simp: session_effect_def confirm_of_user yes_is_not_no)
  qed
next
  case (AdminCallback u data c)
  then show ?thesis
    by (auto simp: session_effect_def admin_buttons_def Let_def
             split: payload.splits member_lookup.splits option.splits)
qed (auto simp: session_effect_def start_def lang_cmd_def on_lang_callback_def clean_callback_def
       ban_cmd_def unban_cmd_def Let_def split: cmd_args.splits option.splits)

lemma cooling_step:
  assumes "cooling uid until s" and "now < until"
  shows "cooling uid until (fst (handle now e s))"
proof -
  from assms(1) have c: "COOLDOWN_UNTIL s uid = Some until" and d: "\<not> truthy_str (draft_text s uid)"
    by (simp_all add: cooling_def)
  have "session_effect now e s (fst (handle now e s))" by (rule handle_session_effect)
  then show ?thesis
    unfolding session_effect_def cooling_def
    using c d assms(2) by (auto simp: truthy_str_def split: if_splits)
qed

lemma no_new_request_step:
  assumes "\<not> truthy_str (draft_text s uid)"
  shows "no_new_request uid s (fst (handle now e s))"
  unfolding no_new_request_def
proof (intro ballI impI)
  fix r' assume r': "r' \<in> set (requests (store (fst (handle now e s))))" and u: "r_user_id r' = uid"
  let ?rows = "requests (store (fst (handle now e s)))"
  have "requests_effect now e s ?rows" by (rule handle_requests_effect)
  then consider
      (same) "?rows = requests (store s)"
    | (status) rid st where "?rows = requests (set_request_status (store s) rid st)"
    | (create) u :: tg_user and new where "truthy_str (draft_text s (tg_id u))" "r_user_id new = tg_id u"
        "?rows = requests (store s) @ [new]"
    | (clean) "?rows = []"
    unfolding requests_effect_def by blast
  then show "\<exists>r \<in> set (requests (store s)). r' = r\<lparr>status := status r'\<rparr>"
  proof cases
    case same
    with r' show ?thesis by (intro bexI [of _ r']) simp_all
  next
    case (status rid st)
    with r' obtain r where "r \<in> set (requests (store s))"
      and "r' = (if request_id r = rid then r\<lparr>status := st\<rparr> else r)"
      by (auto simp: set_request_status_def)
    then show ?thesis by (intro bexI [of _ r]) (auto split: if_splits)
  next
    case (create u new)
    with r' u assms have "r' \<in> set (requests (store s))" by auto
    then show ?thesis by (intro bexI [of _ r']) simp_all
  next
    case clean
    with r' show ?thesis by simp
  qed
qed

lemma no_new_request_refl: "no_new_request uid s s"
  unfolding no_new_request_def
proof (intro ballI impI)
  fix r' assume "r' \<in> set (requests (store s))"
  then show "\<exists>r \<in> set (requests (store s)). r' = r\<lparr>status := status r'\<rparr>"
    by (intro bexI [of _ r']) simp_all
qed

lemma no_new_request_trans:
  assumes "no_new_request uid s s'" and "no_new_request uid s' s''"
  shows "no_new_request uid s s''"
  unfolding no_new_request_def
proof (intro ballI impI)
  fix r'' assume a: "r'' \<in> set (requests (store s''))" "r_user_id r'' = uid"
  with assms(2) obtain r' where r': "r' \<in> set (requests (store s'))" "r'' = r'\<lparr>status := status r''\<rparr>"
    unfolding no_new_request_def by blast
  from arg_cong [OF r'(2), of r_user_id] a(2) have "r_user_id r' = uid" by simp
  with assms(1) r'(1) obtain r where r: "r \<in> set (requests (store s))" "r' = r\<lparr>status := status r'\<rparr>"
    unfolding no_new_request_def by blast
  have "r'\<lparr>status := status r''\<rparr> = r\<lparr>status := status r''\<rparr>" by (subst r(2)) simp
  with r'(2) have "r'' = r\<lparr>status := status r''\<rparr>" by simp
  with r(1) show "\<exists>r \<in> set (requests (store s)). r'' = r\<lparr>status := status r''\<rparr>" by blast
qed

lemma cooling_run:
  assumes "cooling uid until s" and "\<forall>(now, e) \<in> set es. now < until"
  shows "cooling uid until (run es s) \<and> no_new_request uid s (run es s)"
  using assms
proof (induction es arbitrary: s)
  case Nil
  then show ?case by (simp add: no_new_request_refl)
next
  case (Cons x es)
  obtain now e where x: "x = (now, e)" by (cases x)
  let ?s' = "fst (handle now e s)"
  from Cons.prems x have lt: "now < until" by simp
  have c': "cooling uid until ?s'" using Cons.prems(1) lt by (rule cooling_step)
  from Cons.prems(1) have "\<not> truthy_str (draft_text s uid)" by (simp add: cooling_def)
  then have n: "no_new_request uid s ?s'" by (rule no_new_request_step)
  from Cons.prems(2) have "\<forall>(now, e) \<in> set es. now < until" by simp
  with c' have "cooling uid until (run es ?s') \<and> no_new_request uid ?s' (run es ?s')"
    by (rule Cons.IH)
  with n show ?case unfolding x by (auto intro: no_new_request_trans)
qed

lemma confirmed_submission_cooling:
  assumes "\<not> is_owner (tg_id u)" and "get_ban (store s) (tg_id u) = None"
    and "truthy_str (draft_text s (tg_id u))"
  shows "cooling (tg_id u) (T + 10) (fst (handle T (ConfirmCallback u True) s))"
  using assms by (simp add: confirm_of_user yes_is_not_no cooling_def truthy_str_def)

text \<open>
  Claim C4. Let a user who is neither the owner nor banned confirm a draft at time \<open>T\<close>.
  The cooldown of this user then runs until \<open>T + 10\<close>. Through every sequence of updates
  that are handled before \<open>T + 10\<close>, by anyone, no request of this user is added, and in
  the state reached every text of this user that is not a menu label and arrives before
  \<open>T + 10\<close> is answered with the cooldown notice alone and changes nothing (unless the user
  has been banned meanwhile: the ban is checked first), and no press of Yes or No by this
  user changes the requests. The owner passes neither gate: whatever the bans and the
  cooldown dictionary hold, a text of the owner that is not a menu label is handled by
  the reply slot alone, and a press of Yes or No by the owner does nothing.
\<close>

theorem cooldown_gate:
  assumes "\<not> is_owner (tg_id u)" and "get_ban (store s) (tg_id u) = None"
    and "truthy_str (draft_text s (tg_id u))"
    and "\<forall>(now, e) \<in> set es. now < T + 10"
  shows "COOLDOWN_UNTIL (fst (handle T (ConfirmCallback u True) s)) (tg_id u) = Some (T + 10) \<and>
         no_new_request (tg_id u) (fst (handle T (ConfirmCallback u True) s))
           (run es (fst (handle T (ConfirmCallback u True) s))) \<and>
         (\<forall>now u' chat body.
            now < T + 10 \<and> tg_id u' = tg_id u \<and> body \<notin> set menu_labels \<and>
            get_ban (store (run es (fst (handle T (ConfirmCallback u True) s)))) (tg_id u) = None \<longrightarrow>
            handle now (TextMessage u' chat body) (run es (fst (handle T (ConfirmCallback u True) s))) =
              (run es (fst (handle T (ConfirmCallback u True) s)),
               [SendMessage (tg_id u)
                  (t (store (run es (fst (handle T (ConfirmCallback u True) s)))) (tg_id u) (str ''cooldown''))
                  NoMarkup None])) \<and>
         (\<forall>now u' yes.
            now < T + 10 \<and> tg_id u' = tg_id u \<longrightarrow>
            requests (store (fst (handle now (ConfirmCallback u' yes)
                                    (run es (fst (handle T (ConfirmCallback u True) s)))))) =
              requests (store (run es (fst (handle T (ConfirmCallback u True) s))))) \<and>
         (\<forall>s' now o' chat body.
            tg_id o' = ADMIN_ID \<and> body \<notin> set menu_labels \<longrightarrow>
            handle now (TextMessage o' chat body) s' =
              (if \<not> truthy_int (ADMIN_WAITING_REPLY_FOR s' ADMIN_ID) then
                 (s', [SendMessage ADMIN_ID (str ''You are the owner bruh '' @ [128529]) NoMarkup None])
               else
                 (case get_request (store s') (the (ADMIN_WAITING_REPLY_FOR s' ADMIN_ID)) of
                    None \<Rightarrow> (clear_waiting s', [SendMessage chat (str ''Request not found.'') NoMarkup None])
                  | Some req \<Rightarrow>
                      (if get_ban (store s') (r_user_id req) \<noteq> None then
                         (clear_waiting s',
                          [SendMessage chat (str ''Cannot reply: user is banned.'') NoMarkup None])
                       else
                         (clear_waiting (s'\<lparr>store := set_request_status (store s')
                                             (the (ADMIN_WAITING_REPLY_FOR s' ADMIN_ID)) (str ''approved'')\<rparr>),
                          [SendMessage (r_user_id req) (aesthetic_reply body) NoMarkup HTML,
                           SendMessage chat (t (store s') ADMIN_ID (str ''admin_reply_sent'')) NoMarkup None]))))) \<and>
         (\<forall>s' now o' yes.
            tg_id o' = ADMIN_ID \<longrightarrow> handle now (ConfirmCallback o' yes) s' = (s', [Answer None False]))"
proof -
  let ?s1 = "fst (handle T (ConfirmCallback u True) s)"
  let ?s2 = "run es ?s1"
  have c1: "cooling (tg_id u) (T + 10) ?s1"
    using assms(1-3) by (rule confirmed_submission_cooling)
  from cooling_run [OF c1 assms(4)]
  have c2: "cooling (tg_id u) (T + 10) ?s2" and n: "no_new_request (tg_id u) ?s1 ?s2"
    by simp_all
  have a: "COOLDOWN_UNTIL ?s1 (tg_id u) = Some (T + 10)"
    using c1 by (simp add: cooling_def)
  have b: "handle now (TextMessage u' chat body) ?s2 =
             (?s2, [SendMessage (tg_id u) (t (store ?s2) (tg_id u) (str ''cooldown'')) NoMarkup None])"
    if "now < T + 10 \<and> tg_id u' = tg_id u \<and> body \<notin> set menu_labels \<and>
        get_ban (store ?s2) (tg_id u) = None"
    for now and u' :: tg_user and chat body
    using that assms(1) c2 by (simp add: text_of_user cooling_def)
  have c: "requests (store (fst (handle now (ConfirmCallback u' yes) ?s2))) = requests (store ?s2)"
    if "now < T + 10 \<and> tg_id u' = tg_id u" for now and u' :: tg_user and yes
    using that assms(1) c2 by (simp add: confirm_of_user cooling_def)
  have d: "handle now (TextMessage o' chat body) s' =
              (if \<not> truthy_int (ADMIN_WAITING_REPLY_FOR s' ADMIN_ID) then
                 (s', [SendMessage ADMIN_ID (str ''You are the owner bruh '' @ [128529]) NoMarkup None])
               else
                 (case get_request (store s') (the (ADMIN_WAITING_REPLY_FOR s' ADMIN_ID)) of
                    None \<Rightarrow> (clear_waiting s', [SendMessage chat (str ''Request not found.'') NoMarkup None])
                  | Some req \<Rightarrow>
                      (if get_ban (store s') (r_user_id req) \<noteq> None then
                         (clear_waiting s',
                          [SendMessage chat (str ''Cannot reply: user is banned.'') NoMarkup None])
                       else
                         (clear_waiting (s'\<lparr>store := set_request_status (store s')
                                             (the (ADMIN_WAITING_REPLY_FOR s' ADMIN_ID)) (str ''approved'')\<rparr>),
                          [SendMessage (r_user_id req) (aesthetic_reply body) NoMarkup HTML,
                           SendMessage chat (t (store s') ADMIN_ID (str ''admin_reply_sent'')) NoMarkup None]))))"
    if "tg_id o' = ADMIN_ID \<and> body \<notin> set menu_labels" for s' now and o' :: tg_user and chat body
  proof -
    from that have "is_owner (tg_id o')" "body \<notin> set menu_labels" by (simp_all add: is_owner_def)
    from text_of_owner [OF this] that show ?thesis by simp
  qed
  have e: "handle now (ConfirmCallback o' yes) s' = (s', [Answer None False])"
    if "tg_id o' = ADMIN_ID" for s' now and o' :: tg_user and yes
    using that by (simp add: confirm_of_owner is_owner_def)
  show ?thesis
    by (intro conjI allI impI; (rule a n | (rule b c d e, assumption)))
qed

lemma bob_attempts_in_vain: "run bob_attempts bob_cooling = bob_cooling"
  by (simp add: bob_attempts_def bob_cooling_def bob_drafting_eq bob_def handler_defs store_defs
        const_defs Let_def)

lemma bob_cooling_facts:
  "get_ban (store bob_cooling) 42 = None"
  "t (store bob_cooling) 42 (str ''cooldown'') = str ''Bhai ruk ja, cooldown chal raha hai...''"
  "map request_id (requests (store bob_cooling)) = [1, 2]"
  by (simp_all add: bob_cooling_def bob_drafting_eq bob_def handler_defs store_defs const_defs
        Let_def t_def HI_def EN_def)

theorem cooldown_gate_witness:
  "\<not> is_owner (tg_id bob) \<and> get_ban (store bob_drafting) (tg_id bob) = None \<and>
   truthy_str (draft_text bob_drafting (tg_id bob)) \<and>
   map fst bob_attempts = [31, 32] \<and> (31::real) < 30 + 10 \<and> (32::real) < 30 + 10 \<and>
   handle 35 (TextMessage bob 42 (str ''once more'')) (run bob_attempts bob_cooling)
     = (bob_cooling, [SendMessage 42 (str ''Bhai ruk ja, cooldown chal raha hai...'') NoMarkup None]) \<and>
   map request_id (requests (store (run bob_attempts bob_cooling))) = [1, 2]"
proof -
  have h: "\<not> is_owner (tg_id bob)" "get_ban (store bob_drafting) (tg_id bob) = None"
    "truthy_str (draft_text bob_drafting (tg_id bob))"
    "\<forall>(now, e) \<in> set bob_attempts. now < 30 + 10"
    by (simp_all add: bob_attempts_def bob_drafting_eq bob_def is_owner_def ADMIN_ID_def
          get_ban_def truthy_str_def str_def)
  have b: "tg_id bob = 42" "str ''once more'' \<notin> set menu_labels"
    by (simp_all add: bob_def menu_labels_def menu_send_def menu_language_def menu_owner_def
          menu_help_def str_def)
  note g = cooldown_gate [OF h, THEN conjunct2, THEN conjunct2, THEN conjunct1, rule_format,
             of 35 bob "str ''once more''" 42, folded bob_cooling_def]
  have "handle 35 (TextMessage bob 42 (str ''once more'')) (run bob_attempts bob_cooling)
          = (run bob_attempts bob_cooling,
             [SendMessage (tg_id bob) (t (store (run bob_attempts bob_cooling)) (tg_id bob) (str ''cooldown''))
                NoMarkup None])"
    by (rule g) (simp add: bob_attempts_in_vain bob_cooling_facts b del: handle.simps run.simps)
  moreover have "map fst bob_attempts = [31, 32]" by (simp add: bob_attempts_def)
  ultimately show ?thesis using h(1-3)
    by (simp add: bob_attempts_in_vain bob_cooling_facts b del: handle.simps run.simps)
qed

section \<open>Properties of the user list\<close>

lemma digits_below_10: "n < 10 \<Longrightarrow> digits n = [48 + n]"
  by (subst digits.simps) simp

lemma get_paginated_users_page:
  "get_paginated_users d page 20 =
     (take 20 (drop (page * 20) (order_desc updated_at (filter (\<lambda>r. user_id r \<noteq> ADMIN_ID) (users d)))),
      length (filter (\<lambda>r. user_id r \<noteq> ADMIN_ID) (users d)))"
  by (simp add: get_paginated_users_def Let_def)

lemma user_page_properties:
  "length (fst (get_paginated_users d page 20)) \<le> 20 \<and>
   (\<forall>r \<in> set (fst (get_paginated_users d page 20)). r \<in> set (users d) \<and> user_id r \<noteq> ADMIN_ID) \<and>
   sorted_wrt (\<lambda>a b. updated_at a \<ge> updated_at b) (fst (get_paginated_users d page 20)) \<and>
   snd (get_paginated_users d page 20) = length (filter (\<lambda>r. user_id r \<noteq> ADMIN_ID) (users d))"
proof -
  let ?q = "order_desc updated_at (filter (\<lambda>r. user_id r \<noteq> ADMIN_ID) (users d))"
  have "sorted_wrt (\<lambda>a b. updated_at a \<ge> updated_at b) ?q" by (rule order_desc_sorted)
  then have "sorted_wrt (\<lambda>a b. updated_at a \<ge> updated_at b) (take 20 (drop (page * 20) ?q))"
    by simp
  moreover have "set (take 20 (drop (page * 20) ?q)) \<subseteq> set ?q"
    by (meson set_drop_subset set_take_subset subset_trans)
  ultimately show ?thesis
    by (auto simp: get_paginated_users_page)
qed

lemma bob_row:
  "users (store bob_submitted) =
     [\<lparr>user_id = 42, username = Some (str ''bob''), first_name = Some (str ''Bob''),
       lang = str ''hinglish'', updated_at = 0\<rparr>]"
  by (simp add: bob_submitted_eq)

text \<open>
  Claim C8, at the failing input. The store holds one user, who is not the owner. The
  listing returns this user and the count 1, and the page shows "Total Users: 0".
\<close>

theorem total_users_shown_one_less:
  "map user_id (users (store bob_submitted)) = [42] \<and> (42::int) \<noteq> ADMIN_ID \<and>
   map user_id (fst (get_paginated_users (store bob_submitted) 0 20)) = [42] \<and>
   snd (get_paginated_users (store bob_submitted) 0 20) = 1 \<and>
   render_status_page (store bob_submitted) False 0 =
     [EditMessageText
        (str ''<b>'' @ [128100] @ str '' User List (Page 1)</b>'' @ [10] @ str ''Total Users: 0'')
        (InlineKeyboard [[([128073] @ str ''bob'', str ''ST_U:42:0'')],
                         [([128260] @ str '' Refresh'', str ''ST_R:0'')]])
        HTML]"
  by (simp add: bob_row render_status_page_def get_paginated_users_def order_desc_def ADMIN_ID_def
        status_text_def shown_total_def user_button_def str_int_def digits_below_10 truthy_str_def
        CB_STAT_USER_def CB_STAT_REFRESH_def Let_def str_def digits.simps [of 42])

section \<open>Properties of the search\<close>

lemma john_submitted_eq:
  "john_submitted =
     \<lparr>store = \<lparr>users = [\<lparr>user_id = 44, username = Some (str ''johnxdoe''), first_name = Some (str ''John''),
                          lang = str ''hinglish'', updated_at = 0\<rparr>],
                requests = [john_request],
                next_request_id = 2, bans = Map.empty, settings = Map.empty\<rparr>,
      ADMIN_WAITING_REPLY_FOR = Map.empty, COOLDOWN_UNTIL = [44 \<mapsto> 11],
      draft_text = Map.empty, ADMIN_GROUP_ID = None\<rparr>"
  by (simp add: john_submitted_def john_def john_request_def handler_defs store_defs const_defs Let_def)

lemma search_requests_properties:
  "length (search_requests d query) \<le> 10 \<and>
   set (search_requests d query) \<subseteq> set (requests d) \<and>
   sorted_wrt (\<lambda>a b. created_at a \<ge> created_at b) (search_requests d query)"
proof -
  have "sorted_wrt (\<lambda>a b. created_at a \<ge> created_at b) (take 10 (order_desc created_at rows))"
    and "set (take 10 (order_desc created_at (filter P rows))) \<subseteq> set rows"
    for rows :: "request_row list" and P
    using order_desc_sorted [of created_at rows] set_take_subset [of 10 "order_desc created_at (filter P rows)"]
    by auto
  then show ?thesis
    by (simp add: search_requests_def Let_def)
qed

lemma shown_text_properties:
  "take 80 (shown_text body) = take 80 body \<and> length (shown_text body) \<le> 83 \<and>
   (length body \<le> 80 \<longrightarrow> shown_text body = body) \<and>
   (length body > 80 \<longrightarrow> shown_text body = take 80 body @ str ''...'')"
  by (simp add: shown_text_def str_def)

lemma chunks_concat:
  "0 < n \<Longrightarrow> length msg \<le> fuel \<Longrightarrow> concat (chunks fuel n msg) = msg"
proof (induction fuel arbitrary: msg)
  case 0
  then show ?case by simp
next
  case (Suc fuel)
  show ?case
  proof (cases "msg = []")
    case True
    then show ?thesis by simp
  next
    case False
    with Suc.prems have "length (drop n msg) \<le> fuel" by (cases msg) auto
    with Suc.prems(1) have "concat (chunks fuel n (drop n msg)) = drop n msg" by (rule Suc.IH)
    with False show ?thesis by simp
  qed
qed

lemma like_percent: "like [37] s"
  by (induction s) simp_all

lemma like_prefix:
  "\<forall>c \<in> set q. c \<noteq> 37 \<and> c \<noteq> 95 \<Longrightarrow> like (q @ [37]) s = starts_with s q"
proof (induction q arbitrary: s)
  case Nil
  show ?case by (simp add: like_percent)
next
  case (Cons p ps)
  then show ?case by (cases s) auto
qed

lemma like_contains:
  assumes "\<forall>c \<in> set q. c \<noteq> 37 \<and> c \<noteq> 95"
  shows "like ([37] @ q @ [37]) s = py_in q s"
proof (induction s)
  case Nil
  have "like (q @ [37]) [] = starts_with [] q" using assms by (rule like_prefix)
  then show ?case by (cases q) simp_all
next
  case (Cons c cs)
  have "like (q @ [37]) (c # cs) = starts_with (c # cs) q" using assms by (rule like_prefix)
  with Cons show ?case by simp
qed

lemma lower_keeps_literal:
  "\<forall>c \<in> set q. c \<noteq> 37 \<and> c \<noteq> 95 \<Longrightarrow> \<forall>c \<in> set (py_lower q). c \<noteq> 37 \<and> c \<noteq> 95"
  by (auto simp: py_lower_def lower_cp_def)

lemma ilike_contains:
  assumes "\<forall>c \<in> set q. c \<noteq> 37 \<and> c \<noteq> 95"
  shows "ilike (Some v) ([37] @ q @ [37]) = py_in (py_lower q) (py_lower v)"
  using like_contains [OF lower_keeps_literal [OF assms], of "py_lower v"]
  by (simp add: ilike_def py_lower_def lower_cp_def)

text \<open>
  Claim C7, at the failing input. The only request has the handle @johnxdoe. The query
  @john_doe does not occur in this handle, in whatever case, and the search returns the
  request: the underscore of the query stands for any character.
\<close>

theorem search_underscore_is_a_wildcard:
  "requests (store john_submitted) = [john_request] \<and>
   r_username john_request = Some (str ''@johnxdoe'') \<and>
   \<not> py_in (py_lower (str ''john_doe'')) (py_lower (str ''@johnxdoe'')) \<and>
   search_requests (store john_submitted) (str ''@john_doe'') = [john_request]"
  by (simp add: john_submitted_eq john_request_def search_requests_def order_desc_def ilike_def
        py_lower_def lower_cp_def str_def Let_def)

end
